(* ===== verification/Prelude.thy ===== *)
theory Prelude
  imports Main "HOL-Library.Sublist"
begin

text \<open>
  Shared vocabulary of the development: the names of the model's basic types, the
  collections of rewrite rules the component theories extend, and generic lemmas on
  characters, lists and options that several components use.
\<close>

section \<open>Types of the model\<close>

text \<open>
  A JavaScript string is modelled as an Isabelle \<open>string\<close> (a list of 8-bit characters);
  the model's alphabet is ASCII. A JavaScript number that the code uses as an integer
  (a patient id, an age, a bed id) is modelled as \<open>int\<close>.
\<close>

type_synonym js_string = string

type_synonym js_int = int

section \<open>Rule collections\<close>

named_theorems js_simps \<open>evaluation rules of the JavaScript built-in functions of the model\<close>

named_theorems controller_simps \<open>unfolding rules of the patient-list controller's operations\<close>

section \<open>Characters\<close>

lemma of_char_char_of_small [simp]:
  "x < 256 \<Longrightarrow> of_char (char_of (x::nat)) = (x::nat)"
  by simp

lemma char_of_eq_char_of_small:
  "x < 256 \<Longrightarrow> y < 256 \<Longrightarrow> char_of (x::nat) = char_of y \<longleftrightarrow> x = y"
  by simp

section \<open>Lists\<close>

lemma map_fixed_eq:
  "(\<forall>x\<in>set xs. f x = x) \<Longrightarrow> map f xs = xs"
  by (induction xs) auto

lemma sublist_set_subset:
  "sublist xs ys \<Longrightarrow> x \<in> set xs \<Longrightarrow> x \<in> set ys"
  using set_mono_sublist by blast

lemma subseq_set_subset:
  "subseq xs ys \<Longrightarrow> set xs \<subseteq> set ys"
  by (auto elim: list_emb_set)

lemma subseq_filter_mono:
  "(\<And>x. x \<in> set xs \<Longrightarrow> P x \<Longrightarrow> Q x) \<Longrightarrow> subseq (filter P xs) (filter Q xs)"
  by (induction xs) auto

lemma distinct_map_filter:
  "distinct (map f xs) \<Longrightarrow> distinct (map f (filter P xs))"
  by (induction xs) auto

end
