(* ===== verification/JsString.thy ===== *)
theory JsString
  imports Prelude "HOL-Library.While_Combinator"
begin

text \<open>
  The JavaScript built-ins that the patient list calls on strings and numbers:
  \<open>String.prototype.toLowerCase\<close>, \<open>String.prototype.includes\<close>,
  \<open>String.prototype.charAt(0)\<close> and \<open>Number.prototype.toString()\<close> on integers.
  Each is an executable function; \<open>str_includes\<close> is shown equal to the library's
  contiguous-sublist relation and to the specification's \<open>StringIndexOf\<close> loop, which
  is shown to terminate; the decimal printer, exact for integers of magnitude at most
  \<open>2^53\<close>, is shown injective by a parser that inverts it.
\<close>

section \<open>Lower case\<close>

definition is_upper :: "char \<Rightarrow> bool" where
  "is_upper c \<longleftrightarrow> (65::nat) \<le> of_char c \<and> (of_char c::nat) \<le> 90"

definition to_lower_char :: "char \<Rightarrow> char" where
  "to_lower_char c = (if is_upper c then char_of (of_char c + (32::nat)) else c)"

definition to_lower_case :: "js_string \<Rightarrow> js_string" where
  "to_lower_case s = map to_lower_char s"

section \<open>Substring search\<close>

text \<open>
  \<open>starts_with s t\<close>: the string \<open>s\<close> begins with \<open>t\<close>. \<open>str_includes s t\<close> is
  \<open>s.includes(t)\<close>: the ECMAScript algorithm tries every start position of \<open>s\<close>
  from 0 and succeeds at the first one where \<open>s\<close> continues with \<open>t\<close>; the empty
  string is found at position 0 of every string, also of the empty one.
\<close>

fun starts_with :: "'a list \<Rightarrow> 'a list \<Rightarrow> bool" where
  "starts_with _ [] = True"
| "starts_with [] (_ # _) = False"
| "starts_with (x # xs) (y # ys) = (x = y \<and> starts_with xs ys)"

fun str_includes :: "'a list \<Rightarrow> 'a list \<Rightarrow> bool" where
  "str_includes [] t = (t = [])"
| "str_includes (c # cs) t = (starts_with (c # cs) t \<or> str_includes cs t)"

text \<open>
  The same search as the specification writes it (ECMAScript \<open>StringIndexOf\<close>, called
  by \<open>includes\<close> with start position 0): an empty needle is found at the start position
  if that lies within the string; otherwise a loop advances the position \<open>i\<close> from the
  start while the needle still fits (\<open>i + length t \<le> length s\<close>) and does not match
  at \<open>i\<close>. The loop is a \<open>while_option\<close>, so its termination is a theorem; -1 is the
  not-found answer. \<open>js_includes\<close> is \<open>includes\<close>: true unless the index is -1.
\<close>

definition index_of_loop :: "'a list \<Rightarrow> 'a list \<Rightarrow> nat \<Rightarrow> nat option" where
  "index_of_loop s t k =
     while_option (\<lambda>i. i + length t \<le> length s \<and> \<not> starts_with (drop i s) t) Suc k"

definition string_index_of :: "'a list \<Rightarrow> 'a list \<Rightarrow> nat \<Rightarrow> int option" where
  "string_index_of s t k =
     (if t = [] \<and> k \<le> length s then Some (int k)
      else map_option (\<lambda>i. if i + length t \<le> length s then int i else -1) (index_of_loop s t k))"

definition js_includes :: "'a list \<Rightarrow> 'a list \<Rightarrow> bool option" where
  "js_includes s t = map_option (\<lambda>r. r \<noteq> -1) (string_index_of s t 0)"

section \<open>charAt(0)\<close>

definition char_at0 :: "js_string \<Rightarrow> js_string" where
  "char_at0 s = (case s of [] \<Rightarrow> [] | c # _ \<Rightarrow> [c])"

section \<open>Decimal printing of integers\<close>

text \<open>
  \<open>Number.prototype.toString()\<close> on an integer prints its exact decimal digits, with a
  minus sign when negative, for every integer of magnitude at most \<open>2^53\<close>: all of them
  are doubles, and no shorter digit string reads back as the same double. Above \<open>2^53\<close>
  JavaScript prints the shortest digit string that reads back as the same double
  (\<open>2^60\<close> prints as \<open>1152921504606847000\<close>), and from \<open>10^21\<close> on it uses exponent
  notation; \<open>int_to_string\<close> models neither and prints exact digits throughout. What
  the development shows of an id's decimal string therefore holds of the code for ids of
  magnitude at most \<open>2^53\<close>.
\<close>

definition digit_char :: "nat \<Rightarrow> char" where
  "digit_char d = char_of (48 + d)"

fun nat_to_string :: "nat \<Rightarrow> js_string" where
  "nat_to_string n =
     (if n < 10 then [digit_char n] else nat_to_string (n div 10) @ [digit_char (n mod 10)])"

declare nat_to_string.simps [simp del]

definition int_to_string :: "js_int \<Rightarrow> js_string" where
  "int_to_string i =
     (if i < 0 then CHR ''-'' # nat_to_string (nat (- i)) else nat_to_string (nat i))"

text \<open>
  A decimal reader, the inverse of the printer: it is what a consumer of the printed id
  (the monitoring route's query parameter) needs to recover the number. It accepts an
  optional minus sign followed by one or more ASCII digits.
\<close>

definition is_digit :: "char \<Rightarrow> bool" where
  "is_digit c \<longleftrightarrow> (48::nat) \<le> of_char c \<and> (of_char c::nat) \<le> 57"

fun digits_value :: "nat \<Rightarrow> js_string \<Rightarrow> nat option" where
  "digits_value acc [] = Some acc"
| "digits_value acc (c # cs) =
     (if is_digit c then digits_value (10 * acc + (of_char c - 48)) cs else None)"

definition parse_nat_string :: "js_string \<Rightarrow> nat option" where
  "parse_nat_string s = (if s = [] then None else digits_value 0 s)"

definition parse_int_string :: "js_string \<Rightarrow> js_int option" where
  "parse_int_string s =
     (case s of
        c # ds \<Rightarrow> if c = CHR ''-'' then map_option (\<lambda>n. - int n) (parse_nat_string ds)
                  else map_option int (parse_nat_string s)
      | [] \<Rightarrow> None)"

section \<open>Substring search is the sublist relation\<close>

lemma starts_with_iff_prefix [js_simps]: "starts_with s t \<longleftrightarrow> prefix t s"
  by (induction s t rule: starts_with.induct) auto

lemma str_includes_sublist [js_simps]: "str_includes s t \<longleftrightarrow> sublist t s"
proof (induction s)
  case Nil
  show ?case by simp
next
  case (Cons c cs)
  then show ?case by (simp add: starts_with_iff_prefix sublist_Cons_right)
qed

section \<open>The index loop\<close>

text \<open>
  The loop stops: the distance from the position to one past the end of the string
  decreases at every round.
\<close>

lemma index_of_loop_total: "\<exists>i. index_of_loop s t k = Some i"
  unfolding index_of_loop_def
  by (rule measure_while_option_Some [where f = "\<lambda>i. Suc (length s) - i" and P = "\<lambda>_. True"]) auto

lemma sublist_iff_prefix_drop:
  "sublist t s \<longleftrightarrow> (\<exists>j. j + length t \<le> length s \<and> prefix t (drop j s))"
proof
  assume "sublist t s"
  then obtain a b where s: "s = a @ t @ b" by (auto simp: sublist_def)
  then show "\<exists>j. j + length t \<le> length s \<and> prefix t (drop j s)"
    by (intro exI [of _ "length a"]) simp
next
  assume "\<exists>j. j + length t \<le> length s \<and> prefix t (drop j s)"
  then obtain j b where "drop j s = t @ b" by (auto simp: prefix_def)
  then have "s = take j s @ t @ b" by (metis append_take_drop_id)
  then show "sublist t s" by (metis sublist_appendI)
qed

text \<open>
  What the loop returns: a position at or after the start, no earlier position where the
  needle fits and matches, and at the returned position either a match or no room.
\<close>

lemma index_of_loop_result:
  assumes r: "index_of_loop s t k = Some i"
  shows "k \<le> i \<and> (\<forall>j. k \<le> j \<and> j < i \<longrightarrow> \<not> (j + length t \<le> length s \<and> prefix t (drop j s)))
         \<and> \<not> (i + length t \<le> length s \<and> \<not> prefix t (drop i s))"
proof -
  let ?P = "\<lambda>i. k \<le> i \<and> (\<forall>j. k \<le> j \<and> j < i \<longrightarrow> \<not> (j + length t \<le> length s \<and> prefix t (drop j s)))"
  have "?P i"
  proof (rule while_option_rule [where P = ?P])
    show "while_option (\<lambda>i. i + length t \<le> length s \<and> \<not> starts_with (drop i s) t) Suc k = Some i"
      using r by (simp add: index_of_loop_def)
  qed (auto simp: starts_with_iff_prefix less_Suc_eq)
  moreover have "\<not> (i + length t \<le> length s \<and> \<not> prefix t (drop i s))"
    using while_option_stop [OF r [unfolded index_of_loop_def]] by (simp add: starts_with_iff_prefix)
  ultimately show ?thesis by blast
qed

text \<open>The specification's \<open>StringIndexOf\<close> loop and the recursive search agree on every pair of strings.\<close>

lemma js_includes_eq_str_includes: "js_includes s t = Some (str_includes s t)"
proof (cases "t = []")
  case True
  then show ?thesis by (simp add: js_includes_def string_index_of_def str_includes_sublist)
next
  case False
  obtain i where r: "index_of_loop s t 0 = Some i" using index_of_loop_total by blast
  note res = index_of_loop_result [OF r]
  have "i + length t \<le> length s \<longleftrightarrow> sublist t s"
  proof
    assume "i + length t \<le> length s"
    with res show "sublist t s" by (auto simp: sublist_iff_prefix_drop)
  next
    assume "sublist t s"
    then obtain j where j: "j + length t \<le> length s" "prefix t (drop j s)"
      by (auto simp: sublist_iff_prefix_drop)
    with res have "i \<le> j" by (meson not_less zero_le)
    with j show "i + length t \<le> length s" by simp
  qed
  with False r show ?thesis by (auto simp: js_includes_def string_index_of_def str_includes_sublist)
qed

section \<open>Lower case\<close>

lemma to_lower_char_upper:
  "is_upper c \<Longrightarrow> (of_char (to_lower_char c)::nat) = of_char c + 32"
  by (simp add: to_lower_char_def is_upper_def)

lemma to_lower_char_not_upper [simp]: "\<not> is_upper (to_lower_char c)"
  by (cases "is_upper c") (auto simp: to_lower_char_upper, auto simp: to_lower_char_def is_upper_def)

lemma to_lower_char_idem [simp]: "to_lower_char (to_lower_char c) = to_lower_char c"
  by (simp add: to_lower_char_def [of "to_lower_char c"])

lemma length_to_lower_case [simp]: "length (to_lower_case s) = length s"
  by (simp add: to_lower_case_def)

lemma to_lower_case_idem [simp]: "to_lower_case (to_lower_case s) = to_lower_case s"
  by (simp add: to_lower_case_def)

section \<open>The decimal printer\<close>

lemma digit_char_code [simp]: "d < 10 \<Longrightarrow> (of_char (digit_char d)::nat) = 48 + d"
  by (simp add: digit_char_def)

lemma is_digit_digit_char [simp]: "d < 10 \<Longrightarrow> is_digit (digit_char d)"
  by (simp add: is_digit_def)

lemma nat_to_string_nonempty [simp]: "nat_to_string n \<noteq> []"
  by (subst nat_to_string.simps) simp

lemma int_to_string_zero [simp]: "int_to_string 0 = ''0''"
  by code_simp

lemma nat_to_string_digits: "c \<in> set (nat_to_string n) \<Longrightarrow> is_digit c"
proof (induction n rule: nat_to_string.induct)
  case (1 n)
  show ?case
  proof (cases "n < 10")
    case True
    with "1.prems" show ?thesis by (simp add: nat_to_string.simps [of n])
  next
    case False
    with "1.prems" "1.IH" show ?thesis by (auto simp: nat_to_string.simps [of n])
  qed
qed

lemma digits_value_append:
  "digits_value acc (xs @ ys) = (case digits_value acc xs of None \<Rightarrow> None | Some a \<Rightarrow> digits_value a ys)"
  by (induction acc xs rule: digits_value.induct) auto

lemma digits_value_nat_to_string: "digits_value 0 (nat_to_string n) = Some n"
proof (induction n rule: nat_to_string.induct)
  case (1 n)
  show ?case
  proof (cases "n < 10")
    case True
    then show ?thesis by (simp add: nat_to_string.simps [of n])
  next
    case False
    then have "digits_value 0 (nat_to_string n) = digits_value (n div 10) [digit_char (n mod 10)]"
      using "1.IH" by (simp add: nat_to_string.simps [of n] digits_value_append)
    also have "\<dots> = Some n" by simp
    finally show ?thesis .
  qed
qed

lemma parse_nat_string_roundtrip [js_simps]: "parse_nat_string (nat_to_string n) = Some n"
  by (simp add: parse_nat_string_def digits_value_nat_to_string)

lemma minus_not_digit: "\<not> is_digit (CHR ''-'')"
  by (simp add: is_digit_def)

lemma nat_to_string_hd_not_minus: "nat_to_string n = c # cs \<Longrightarrow> c \<noteq> CHR ''-''"
  using nat_to_string_digits [of c n] minus_not_digit by auto

text \<open>Reading back the printed integer.\<close>

lemma parse_int_string_int_to_string [js_simps]: "parse_int_string (int_to_string i) = Some i"
proof (cases "i < 0")
  case True
  then show ?thesis
    by (simp add: int_to_string_def parse_int_string_def parse_nat_string_roundtrip)
next
  case False
  obtain c cs where cs: "nat_to_string (nat i) = c # cs"
    using nat_to_string_nonempty by (cases "nat_to_string (nat i)") auto
  then have "c \<noteq> CHR ''-''" by (rule nat_to_string_hd_not_minus)
  with False cs show ?thesis
    by (simp add: int_to_string_def parse_int_string_def parse_nat_string_roundtrip [of "nat i", unfolded cs])
qed

lemma int_to_string_inj: "int_to_string i = int_to_string j \<longleftrightarrow> i = j"
  by (metis option.inject parse_int_string_int_to_string)

lemma int_to_string_chars: "c \<in> set (int_to_string i) \<Longrightarrow> is_digit c \<or> c = CHR ''-''"
  by (auto simp: int_to_string_def dest: nat_to_string_digits split: if_splits)

section \<open>Lower case and decimal strings\<close>

text \<open>
  Lowering a letter never yields a digit or a minus sign, and digits and the minus sign
  are their own lower case. So a query and its lower case are found in a decimal string
  alike.
\<close>

lemma to_lower_upper_not_numeric:
  "is_upper c \<Longrightarrow> \<not> is_digit (to_lower_char c) \<and> to_lower_char c \<noteq> CHR ''-''"
proof -
  assume u: "is_upper c"
  then have "(of_char (to_lower_char c)::nat) = of_char c + 32" by (rule to_lower_char_upper)
  with u have "(97::nat) \<le> of_char (to_lower_char c)" by (simp add: is_upper_def)
  then show ?thesis by (auto simp: is_digit_def)
qed
lemma numeric_not_upper: "is_digit c \<or> c = CHR ''-'' \<Longrightarrow> \<not> is_upper c"
  by (auto simp: is_digit_def is_upper_def)
lemma sublist_lower_case_chars: "sublist (to_lower_case q) h \<Longrightarrow> \<forall>c\<in>set q. to_lower_char c \<in> set h"
proof -
  assume "sublist (to_lower_case q) h"
  then have "set (map to_lower_char q) \<subseteq> set h"
    unfolding to_lower_case_def by (rule set_mono_sublist)
  then show "\<forall>c\<in>set q. to_lower_char c \<in> set h"
    by auto
qed
lemma to_lower_case_no_upper: "\<forall>c\<in>set q. \<not> is_upper c \<Longrightarrow> to_lower_case q = q"
  by (simp add: to_lower_case_def to_lower_char_def map_fixed_eq)

lemma sublist_numeric_lower_case:
  assumes h: "\<forall>c\<in>set h. is_digit c \<or> c = CHR ''-''"
  shows "sublist (to_lower_case q) h \<longleftrightarrow> sublist q h"
proof
  assume l: "sublist (to_lower_case q) h"
  have "\<forall>c\<in>set q. \<not> is_upper c"
  proof
    fix c
    assume "c \<in> set q"
    with sublist_lower_case_chars [OF l] have "to_lower_char c \<in> set h" by blast
    with h have "is_digit (to_lower_char c) \<or> to_lower_char c = CHR ''-''" by blast
    then show "\<not> is_upper c" using to_lower_upper_not_numeric by blast
  qed
  then have "to_lower_case q = q" by (rule to_lower_case_no_upper)
  with l show "sublist q h" by simp
next
  assume r: "sublist q h"
  have "\<forall>c\<in>set q. \<not> is_upper c"
  proof
    fix c
    assume "c \<in> set q"
    with r have "c \<in> set h" by (rule sublist_set_subset)
    with h show "\<not> is_upper c" using numeric_not_upper by blast
  qed
  then have "to_lower_case q = q" by (rule to_lower_case_no_upper)
  with r show "sublist (to_lower_case q) h" by simp
qed

lemma int_to_string_lower_case_query:
  "sublist (to_lower_case q) (int_to_string i) \<longleftrightarrow> sublist q (int_to_string i)"
proof (rule sublist_numeric_lower_case)
  show "\<forall>c\<in>set (int_to_string i). is_digit c \<or> c = CHR ''-''"
    using int_to_string_chars by blast
qed
end
