(* ===== verification/Patient.thy ===== *)
theory Patient
  imports JsString
begin

text \<open>
  The patient record of \<open>src/src/pages/PatientRecords.tsx\<close> (interface \<open>Patient\<close>)
  and the search filter that the second effect of the page applies to it. The filter is
  shown to implement the specification's filter predicate, which lower-cases the query
  for all three fields, although the code compares the raw query with the id.
\<close>

section \<open>The record\<close>

record patient =
  patient_id :: js_int
  patient_name :: js_string
  age :: js_int
  gender :: js_string
  diagnosis :: js_string
  admission_date :: js_string
  bed_id :: "js_int option"

section \<open>The search filter\<close>

text \<open>
  The callback of \<open>patients.filter\<close>: the lower-cased name includes the lower-cased
  query, or the id's decimal string includes the query as typed, or the lower-cased
  diagnosis includes the lower-cased query. JavaScript's \<open>||\<close> evaluates left to right
  and stops at the first true operand; the operands have no effects, so the model is
  the disjunction.
\<close>

definition matches_search :: "js_string \<Rightarrow> patient \<Rightarrow> bool" where
  "matches_search search_query p \<longleftrightarrow>
     str_includes (to_lower_case (patient_name p)) (to_lower_case search_query) \<or>
     str_includes (int_to_string (patient_id p)) search_query \<or>
     str_includes (to_lower_case (diagnosis p)) (to_lower_case search_query)"

definition filter_patients :: "patient list \<Rightarrow> js_string \<Rightarrow> patient list" where
  "filter_patients patients search_query = filter (matches_search search_query) patients"

text \<open>The record of the specification's scenario (section 8), used by the witnesses.\<close>

definition asha_rao :: patient where
  "asha_rao =
     \<lparr>patient_id = 1, patient_name = ''Asha Rao'', age = 34, gender = ''F'',
      diagnosis = ''Pneumonia'', admission_date = ''2025-01-02'', bed_id = Some 5\<rparr>"

section \<open>The specification's predicate\<close>

text \<open>
  Section 4.1 of the specification: a record passes iff the lower-case search text is a
  contiguous substring of the lower-case name, of the decimal id, or of the lower-case
  diagnosis. Stated with the library's \<open>sublist\<close> relation.
\<close>

definition spec_passes :: "js_string \<Rightarrow> patient \<Rightarrow> bool" where
  "spec_passes q p \<longleftrightarrow>
     sublist (to_lower_case q) (to_lower_case (patient_name p)) \<or>
     sublist (to_lower_case q) (int_to_string (patient_id p)) \<or>
     sublist (to_lower_case q) (to_lower_case (diagnosis p))"

lemma matches_search_iff_spec_passes: "matches_search q p \<longleftrightarrow> spec_passes q p"
  by (simp add: matches_search_def spec_passes_def str_includes_sublist
      int_to_string_lower_case_query)

lemma matches_search_eq_spec_passes [simp]: "matches_search = spec_passes"
  by (simp add: fun_eq_iff matches_search_iff_spec_passes)

lemma spec_passes_lower_case [simp]: "spec_passes (to_lower_case q) = spec_passes q"
  by (simp add: fun_eq_iff spec_passes_def)

lemma spec_passes_Nil [simp]: "spec_passes [] p"
  by (simp add: spec_passes_def to_lower_case_def)

lemma spec_passes_narrow:
  assumes "sublist q q'" and "spec_passes q' p"
  shows "spec_passes q p"
proof -
  have lq: "sublist (to_lower_case q) (to_lower_case q')"
    unfolding to_lower_case_def using assms(1) by (rule map_mono_sublist)
  from assms(2) lq show ?thesis
    unfolding spec_passes_def by (meson sublist_order.order_trans)
qed

lemma filter_asha_rao_pneu: "filter_patients [asha_rao] ''pneu'' = [asha_rao]"
  unfolding asha_rao_def by code_simp

lemma filter_asha_rao_99: "filter_patients [asha_rao] ''99'' = []"
  unfolding asha_rao_def by code_simp

text \<open>C1: The search filter of the code implements the specification's filter predicate: for every list and query it keeps exactly the records whose lower-case name, decimal id or lower-case diagnosis contains the lower-case query, in their original order (although the code tests the id against the query as typed).\<close>

lemma filter_patients_refines: "filter_patients ps q = filter (spec_passes q) ps"
  unfolding filter_patients_def
  by (rule filter_cong) (simp_all only: matches_search_def spec_passes_def str_includes_sublist
      int_to_string_lower_case_query)

text \<open>The empty search text keeps every record, in order.\<close>

lemma filter_patients_empty_query: "filter_patients ps [] = ps"
  by (simp add: filter_patients_def)

text \<open>C11: The search is case-insensitive: a query and its lower case select the same records, the id comparison included.\<close>

lemma filter_patients_case_insensitive:
  "filter_patients ps (to_lower_case q) = filter_patients ps q"
  by (simp add: filter_patients_def)

text \<open>C12: Extending the search text never adds a result: if the old query is a substring of the new one, the new result is a subsequence of the old result.\<close>

lemma filter_patients_narrowing:
  "sublist q q' \<Longrightarrow> subseq (filter_patients ps q') (filter_patients ps q)"
  unfolding filter_patients_def by (rule subseq_filter_mono) (auto intro: spec_passes_narrow)

lemma filter_patients_narrowing_witness:
  "sublist ''pn'' ''pneu'' \<and>
   subseq (filter_patients [asha_rao] ''pneu'') (filter_patients [asha_rao] ''pn'')"
proof -
  have h: "sublist ''pn'' ''pneu''" by code_simp
  show ?thesis using h filter_patients_narrowing [OF h, of "[asha_rao]"] by simp
qed

text \<open>Filtering keeps ids unique.\<close>

lemma filter_patients_distinct_ids:
  "distinct (map patient_id ps) \<Longrightarrow> distinct (map patient_id (filter_patients ps q))"
  unfolding filter_patients_def by (rule distinct_map_filter)

end
