(* ===== verification/Controller.thy ===== *)
theory Controller
  imports Patient
begin

text \<open>
  The state and behaviour of the \<open>PatientRecords\<close> component of
  \<open>src/src/pages/PatientRecords.tsx\<close> (lines 20-50, and the callbacks handed to the
  dialogs at lines 73, 160 and 180), as a state machine. Its state is the four
  \<open>useState\<close> hooks together with what the React runtime keeps for the component: which
  effects the last render scheduled and which \<open>fetchPatients\<close> calls are waiting for the
  network. Events are a commit (React runs the scheduled effects), a keystroke in the
  search box, a dialog's refetch callback, and the resolution of a pending fetch with
  whatever the network returned.
\<close>

section \<open>Network outcomes and errors\<close>

text \<open>
  What one \<open>fetch('http://localhost:3000/api/patients')\<close> followed by \<open>res.json()\<close>
  can produce: the fetch rejects (network error), or a response arrives with an HTTP status
  and a body that is a JSON array of patients, other valid JSON (for example an error
  object), or text that is not JSON (then \<open>res.json()\<close> rejects).
\<close>

datatype json_body = Json_Array "patient list" | Json_Not_Array | Malformed_Json

datatype fetch_outcome = Network_Error | Http_Response nat json_body

text \<open>
  An error that leaves the page: React unmounts a component whose render throws.
\<close>

datatype page_error = Render_Type_Error

section \<open>State\<close>

record page =
  patients :: "patient list"
  filtered_patients :: "patient list"
  loading :: bool
  search_query :: js_string
  mount_due :: bool
  filter_due :: bool
  in_flight :: "nat list"
  next_request :: nat

text \<open>
  The first render: the \<open>useState\<close> initial values of lines 21-24; both effects run
  after the first commit whatever their dependencies; nothing is in flight.
\<close>

definition initial_page :: page where
  "initial_page =
     \<lparr>patients = [], filtered_patients = [], loading = True, search_query = [],
      mount_due = True, filter_due = True, in_flight = [], next_request = 0\<rparr>"

section \<open>Operations\<close>

text \<open>
  \<open>fetchPatients()\<close> up to its first \<open>await\<close> (lines 26-28): the request is sent and
  the call suspends. Each call is one pending request, named by a fresh number.
\<close>

definition fetch_patients_start :: "page \<Rightarrow> page" where
  "fetch_patients_start p =
     p\<lparr>in_flight := in_flight p @ [next_request p], next_request := Suc (next_request p)\<rparr>"

text \<open>
  The rest of \<open>fetchPatients()\<close> (lines 29-36), once the network has answered. On a
  network error or a body that is not JSON, the \<open>catch\<close> logs and the \<open>finally\<close>
  clears \<open>loading\<close>. Otherwise the decoded value is stored in \<open>patients\<close> and in
  \<open>filteredPatients\<close> whatever the HTTP status, \<open>loading\<close> is cleared, and since
  \<open>patients\<close> is a new array the filter effect is scheduled. A decoded value that is
  not an array is stored as well; the render that follows calls
  \<open>filteredPatients.map\<close> (line 104) on it with \<open>loading\<close> false and throws.
\<close>

fun fetch_patients_finish :: "fetch_outcome \<Rightarrow> page \<Rightarrow> page_error + page" where
  "fetch_patients_finish Network_Error p = Inr (p\<lparr>loading := False\<rparr>)"
| "fetch_patients_finish (Http_Response status Malformed_Json) p = Inr (p\<lparr>loading := False\<rparr>)"
| "fetch_patients_finish (Http_Response status (Json_Array data)) p =
     Inr (p\<lparr>patients := data, filtered_patients := data, loading := False, filter_due := True\<rparr>)"
| "fetch_patients_finish (Http_Response status Json_Not_Array) p = Inl Render_Type_Error"

text \<open>
  The search box's \<open>onChange\<close> (line 88): \<open>setSearchQuery(e.target.value)\<close>. React
  skips the re-render when the new value is the old one; otherwise the query changes and,
  being a dependency of the filter effect, schedules it.
\<close>

definition set_search_query :: "js_string \<Rightarrow> page \<Rightarrow> page" where
  "set_search_query q p =
     (if q = search_query p then p else p\<lparr>search_query := q, filter_due := True\<rparr>)"

text \<open>The body of the second effect (lines 43-50).\<close>

definition filter_effect :: "page \<Rightarrow> page" where
  "filter_effect p = p\<lparr>filtered_patients := filter_patients (patients p) (search_query p)\<rparr>"

text \<open>
  After a render is committed React runs the effects it scheduled, in the order they are
  declared: the mount effect (lines 39-41), which calls \<open>fetchPatients()\<close>, and then the
  filter effect. Setting \<open>filteredPatients\<close> renders again but changes no dependency,
  so nothing is scheduled by it.
\<close>

definition commit :: "page \<Rightarrow> page" where
  "commit p =
     (let p1 = (if mount_due p then fetch_patients_start p else p);
          p2 = (if filter_due p then filter_effect p1 else p1)
      in p2\<lparr>mount_due := False, filter_due := False\<rparr>)"

section \<open>Events and runs\<close>

datatype event =
    Commit
  | Type_Query js_string
  | Refetch
  | Resolve nat fetch_outcome

text \<open>
  \<open>Refetch\<close> is a call of the \<open>onPatientAdded\<close> or \<open>onPatientDeleted\<close> callback
  (lines 73, 160, 180), which is \<open>fetchPatients\<close> itself. \<open>Resolve r out\<close> delivers
  the network's answer to pending request \<open>r\<close>; for a request that is not pending it
  changes nothing.
\<close>

fun step :: "page \<Rightarrow> event \<Rightarrow> page_error + page" where
  "step p Commit = Inr (commit p)"
| "step p (Type_Query q) = Inr (set_search_query q p)"
| "step p Refetch = Inr (fetch_patients_start p)"
| "step p (Resolve r out) =
     (if r \<in> set (in_flight p)
      then fetch_patients_finish out (p\<lparr>in_flight := remove1 r (in_flight p)\<rparr>)
      else Inr p)"

fun run :: "page \<Rightarrow> event list \<Rightarrow> page_error + page" where
  "run p [] = Inr p"
| "run p (e # es) = (case step p e of Inl err \<Rightarrow> Inl err | Inr p' \<Rightarrow> run p' es)"

inductive reachable :: "page \<Rightarrow> bool" where
  initial: "reachable initial_page"
| step: "reachable p \<Longrightarrow> step p e = Inr p' \<Longrightarrow> reachable p'"

text \<open>The event sequence of the specification's first scenario, used by the witnesses.\<close>

definition scenario_events :: "event list" where
  "scenario_events = [Commit, Resolve 0 (Http_Response 200 (Json_Array [asha_rao])), Commit, Type_Query ''pneu'', Commit]"

section \<open>Invariant\<close>

text \<open>
  What the controller keeps true between its fields: while loading nothing has been
  received; the filtered list is always a subsequence of the full list; when no filter
  effect is scheduled the filtered list is the filter of the full list by the query; the
  pending requests are distinct and older than the next one.
\<close>

definition page_inv :: "page \<Rightarrow> bool" where
  "page_inv p \<longleftrightarrow>
     (loading p \<longrightarrow> patients p = [] \<and> filtered_patients p = []) \<and>
     subseq (filtered_patients p) (patients p) \<and>
     (\<not> filter_due p \<longrightarrow> filtered_patients p = filter_patients (patients p) (search_query p)) \<and>
     distinct (in_flight p) \<and> (\<forall>r\<in>set (in_flight p). r < next_request p)"

section \<open>Lemmas\<close>

fun_cases fetch_patients_finish_InrE: "fetch_patients_finish out p = Inr p'"

lemmas page_ops_defs [controller_simps] =
  fetch_patients_start_def set_search_query_def filter_effect_def commit_def

text \<open>What a commit does, unfolded: the scheduled effects in order.\<close>

lemmas commit_unfolds = commit_def Let_def filter_effect_def fetch_patients_start_def

lemma fetch_patients_start_frame [simp]:
  "patients (fetch_patients_start p) = patients p"
  "filtered_patients (fetch_patients_start p) = filtered_patients p"
  "loading (fetch_patients_start p) = loading p"
  "search_query (fetch_patients_start p) = search_query p"
  "filter_due (fetch_patients_start p) = filter_due p"
  by (simp_all add: fetch_patients_start_def)

lemma set_search_query_frame [simp]:
  "patients (set_search_query q p) = patients p"
  "filtered_patients (set_search_query q p) = filtered_patients p"
  "loading (set_search_query q p) = loading p"
  "mount_due (set_search_query q p) = mount_due p"
  "next_request (set_search_query q p) = next_request p"
  "in_flight (set_search_query q p) = in_flight p"
  by (simp_all add: set_search_query_def)

lemma commit_frame [simp]:
  "patients (commit p) = patients p"
  "loading (commit p) = loading p"
  "search_query (commit p) = search_query p"
  "\<not> mount_due (commit p)"
  "\<not> filter_due (commit p)"
  by (simp_all add: commit_def Let_def filter_effect_def)

lemma page_inv_initial: "page_inv initial_page"
  by (simp add: page_inv_def initial_page_def)

lemma page_inv_fetch_patients_start: "page_inv p \<Longrightarrow> page_inv (fetch_patients_start p)"
  by (auto simp: page_inv_def fetch_patients_start_def)

lemma page_inv_commit: "page_inv p \<Longrightarrow> page_inv (commit p)"
  by (auto simp: page_inv_def commit_unfolds
      filter_patients_def)

lemma page_inv_set_search_query: "page_inv p \<Longrightarrow> page_inv (set_search_query q p)"
  by (auto simp: page_inv_def set_search_query_def)

lemma page_inv_fetch_patients_finish:
  "page_inv p \<Longrightarrow> fetch_patients_finish out p = Inr p' \<Longrightarrow> page_inv p'"
  by (induction out p rule: fetch_patients_finish.induct) (auto simp: page_inv_def)

lemma page_inv_remove_request:
  "page_inv p \<Longrightarrow> page_inv (p\<lparr>in_flight := remove1 r (in_flight p)\<rparr>)"
  by (auto simp: page_inv_def dest: in_set_remove1 [THEN iffD1, rotated] notin_set_remove1)

lemma page_inv_step: "page_inv p \<Longrightarrow> step p e = Inr p' \<Longrightarrow> page_inv p'"
proof (cases e)
  case (Resolve r out)
  assume "page_inv p" "step p e = Inr p'"
  with Resolve show ?thesis
    by (auto split: if_splits intro: page_inv_fetch_patients_finish page_inv_remove_request)
qed (auto intro: page_inv_commit page_inv_set_search_query page_inv_fetch_patients_start)

lemma reachable_page_inv: "reachable p \<Longrightarrow> page_inv p"
proof (induction rule: reachable.induct)
  case initial
  show ?case by (rule page_inv_initial)
next
  case (step p e p')
  then show ?case by (blast intro: page_inv_step)
qed

lemma run_append:
  "run p (xs @ ys) = (case run p xs of Inl err \<Rightarrow> Inl err | Inr p' \<Rightarrow> run p' ys)"
  by (induction p xs rule: run.induct) (auto split: sum.splits)

lemma reachable_run: "run p es = Inr p' \<Longrightarrow> reachable p \<Longrightarrow> reachable p'"
proof (induction p es rule: run.induct)
  case (1 p)
  then show ?case by simp
next
  case (2 p e es)
  then show ?case by (auto split: sum.splits intro: reachable.step)
qed

text \<open>C2: In every reachable state of the page in which no filter effect is pending, the filtered list is exactly the filter of the full list by the current search query.\<close>

lemma reachable_filter_consistent:
  "reachable p \<Longrightarrow> \<not> filter_due p \<Longrightarrow> filtered_patients p = filter_patients (patients p) (search_query p)"
proof (induction rule: reachable.induct)
  case initial
  then show ?case by (simp add: initial_page_def)
next
  case (step p e p')
  show ?case
  proof (cases e)
    case Commit
    with step show ?thesis
      by (cases "filter_due p") (auto simp: commit_unfolds)
  next
    case (Type_Query q)
    with step show ?thesis by (auto simp: set_search_query_def split: if_splits)
  next
    case Refetch
    with step show ?thesis by (auto simp: fetch_patients_start_def)
  next
    case (Resolve r out)
    with step show ?thesis by (auto split: if_splits elim: fetch_patients_finish_InrE)
  qed
qed

lemma run_scenario: "run initial_page scenario_events = Inr (initial_page\<lparr>patients := [asha_rao], filtered_patients := [asha_rao], loading := False, search_query := ''pneu'', mount_due := False, filter_due := False, next_request := 1\<rparr>)"
  by (simp add: scenario_events_def initial_page_def controller_simps filter_asha_rao_pneu)

lemma reachable_filter_consistent_witness:
  "reachable (initial_page\<lparr>patients := [asha_rao], filtered_patients := [asha_rao], loading := False, search_query := ''pneu'', mount_due := False, filter_due := False, next_request := 1\<rparr>) \<and>
   filtered_patients (initial_page\<lparr>patients := [asha_rao], filtered_patients := [asha_rao], loading := False, search_query := ''pneu'', mount_due := False, filter_due := False, next_request := 1\<rparr>) = filter_patients [asha_rao] ''pneu''"
proof -
  have r: "reachable (initial_page\<lparr>patients := [asha_rao], filtered_patients := [asha_rao], loading := False, search_query := ''pneu'', mount_due := False, filter_due := False, next_request := 1\<rparr>)"
    by (rule reachable_run [OF run_scenario reachable.initial])
  show ?thesis using reachable_filter_consistent [OF r] r by simp
qed

text \<open>C6: In every reachable state the filtered list is a subsequence of the full patient list (the filtered set is always a subset of the full set, in its order).\<close>

lemma reachable_filtered_subseq: "reachable p \<Longrightarrow> subseq (filtered_patients p) (patients p)"
  using reachable_page_inv by (simp add: page_inv_def)


lemma reachable_filtered_subseq_witness:
  "reachable (commit initial_page) \<and>
   subseq (filtered_patients (commit initial_page)) (patients (commit initial_page))"
proof -
  have r: "reachable (commit initial_page)"
    by (rule reachable.step [OF reachable.initial, of Commit]) simp
  show ?thesis using reachable_filtered_subseq [OF r] r by simp
qed

text \<open>C5: While the page is loading (no fetch has completed), both the full and the filtered patient lists are empty; in particular the displayed count is 0.\<close>

lemma reachable_loading_empty:
  "reachable p \<Longrightarrow> loading p \<Longrightarrow> patients p = [] \<and> filtered_patients p = []"
  using reachable_page_inv by (simp add: page_inv_def)

lemma reachable_loading_empty_witness:
  "reachable (commit initial_page) \<and> loading (commit initial_page) \<and>
   patients (commit initial_page) = [] \<and> filtered_patients (commit initial_page) = []"
proof -
  have r: "reachable (commit initial_page)"
    by (rule reachable.step [OF reachable.initial, of Commit]) simp
  have l: "loading (commit initial_page)" by (simp add: initial_page_def controller_simps)
  show ?thesis using reachable_loading_empty [OF r l] r l by simp
qed

text \<open>C4: A failed refresh (a network error, or a body that is not JSON) leaves the patient lists, the query and the pending requests unchanged and clears the loading flag.\<close>

lemma fetch_failure_keeps_records:
  "out = Network_Error \<or> out = Http_Response status Malformed_Json \<Longrightarrow>
   fetch_patients_finish out p = Inr (p\<lparr>loading := False\<rparr>)"
  by auto

lemma fetch_failure_keeps_records_witness:
  "(Http_Response 502 Malformed_Json = Network_Error \<or> Http_Response 502 Malformed_Json = Http_Response 502 Malformed_Json) \<and>
   fetch_patients_finish (Http_Response 502 Malformed_Json) initial_page = Inr (initial_page\<lparr>loading := False\<rparr>)"
  using fetch_failure_keeps_records [of "Http_Response 502 Malformed_Json" 502 initial_page] by simp

text \<open>C3: A refresh whose response body is a JSON array replaces the full list wholesale by the decoded array, sets the filtered list to the same array, clears loading, and after the next commit the filtered list is the filter of the new list by the unchanged query.\<close>

lemma fetch_success_replaces_records:
  "\<exists>p'. fetch_patients_finish (Http_Response status (Json_Array data)) p = Inr p' \<and>
     patients p' = data \<and> filtered_patients p' = data \<and> \<not> loading p' \<and>
     search_query p' = search_query p \<and>
     filtered_patients (commit p') = filter_patients data (search_query p)"
  by (simp add: commit_unfolds)

text \<open>The first response carries a JSON body that is not an array (an error object with status 500): the page fails with a render type error instead of keeping its last-known-good state.\<close>

lemma error_object_crashes_page:
  "run initial_page [Commit, Resolve 0 (Http_Response 500 Json_Not_Array)] = Inl Render_Type_Error"
  by (simp add: initial_page_def controller_simps)

lemma fetch_patients_finish_not_loading:
  "fetch_patients_finish out p = Inr p' \<Longrightarrow> \<not> loading p'"
  by (induction out p rule: fetch_patients_finish.induct) auto

text \<open>C15: Once loading has been cleared it is never set again: no step of the page turns the loading flag back on.\<close>

lemma loading_stays_cleared: "step p e = Inr p' \<Longrightarrow> \<not> loading p \<Longrightarrow> \<not> loading p'"
proof (cases e)
  case (Resolve r out)
  assume "step p e = Inr p'" "\<not> loading p"
  with Resolve show ?thesis by (auto split: if_splits elim: fetch_patients_finish_InrE)
qed (auto simp: commit_unfolds set_search_query_def
    split: if_splits)

lemma loading_stays_cleared_witness:
  "step (initial_page\<lparr>loading := False\<rparr>) Refetch = Inr (fetch_patients_start (initial_page\<lparr>loading := False\<rparr>)) \<and>
   \<not> loading (initial_page\<lparr>loading := False\<rparr>) \<and> \<not> loading (fetch_patients_start (initial_page\<lparr>loading := False\<rparr>))"
  using loading_stays_cleared [of "initial_page\<lparr>loading := False\<rparr>" Refetch] by (simp add: fetch_patients_start_def)

text \<open>C14: Overlapping refreshes are not sequenced: from any page with two different requests pending, whichever of them was issued first, when both answer with an array the page keeps and shows the body of the one that resolved last, filtered by the unchanged search text, and the other's body is gone; in particular a stale answer to an older request overwrites a newer one.\<close>

lemma last_resolved_wins:
  "r1 \<in> set (in_flight p) \<Longrightarrow> r2 \<in> set (in_flight p) \<Longrightarrow> r1 \<noteq> r2 \<Longrightarrow>
   \<exists>p'. run p [Resolve r1 (Http_Response n1 (Json_Array d1)),
                Resolve r2 (Http_Response n2 (Json_Array d2)), Commit] = Inr p' \<and>
        patients p' = d2 \<and> filtered_patients p' = filter_patients d2 (search_query p) \<and>
        \<not> loading p'"
  by (simp add: commit_unfolds in_set_remove1)

lemma last_resolved_wins_witness:
  "(1::nat) \<in> set (in_flight (initial_page\<lparr>in_flight := [0, 1]\<rparr>)) \<and>
   (0::nat) \<in> set (in_flight (initial_page\<lparr>in_flight := [0, 1]\<rparr>)) \<and> (1::nat) \<noteq> 0 \<and>
   (\<exists>p'. run (initial_page\<lparr>in_flight := [0, 1]\<rparr>)
          [Resolve 1 (Http_Response 200 (Json_Array [])),
           Resolve 0 (Http_Response 200 (Json_Array [asha_rao])), Commit] = Inr p' \<and>
        patients p' = [asha_rao] \<and>
        filtered_patients p' = filter_patients [asha_rao] (search_query (initial_page\<lparr>in_flight := [0, 1]\<rparr>)) \<and>
        \<not> loading p')"
  using last_resolved_wins [of 1 "initial_page\<lparr>in_flight := [0, 1]\<rparr>" 0 200 "[]" 200 "[asha_rao]"]
  by simp

lemma commit_next_request:
  "next_request (commit p) = next_request p + (if mount_due p then 1 else 0)"
  by (simp add: commit_unfolds)

lemma fetch_patients_finish_requests:
  "fetch_patients_finish out p = Inr p' \<Longrightarrow> next_request p' = next_request p \<and> mount_due p' = mount_due p"
  by (induction out p rule: fetch_patients_finish.induct) auto

lemma step_requests:
  "step p e = Inr p' \<Longrightarrow>
   next_request p' = next_request p + (if e = Refetch \<or> (e = Commit \<and> mount_due p) then 1 else 0) \<and>
   mount_due p' = (mount_due p \<and> e \<noteq> Commit)"
proof (cases e)
  case Commit
  assume "step p e = Inr p'"
  with Commit show ?thesis by (auto simp: commit_next_request)
next
  case (Resolve r out)
  assume "step p e = Inr p'"
  with Resolve show ?thesis by (auto split: if_splits dest: fetch_patients_finish_requests)
qed (auto simp: fetch_patients_start_def)

lemma run_next_request_general:
  "run p es = Inr p' \<Longrightarrow>
   next_request p' = next_request p + (if mount_due p \<and> Commit \<in> set es then 1 else 0) + count_list es Refetch"
proof (induction es arbitrary: p)
  case Nil
  then show ?case by simp
next
  case (Cons e es)
  from Cons.prems obtain p1 where s: "step p e = Inr p1" and r: "run p1 es = Inr p'"
    by (auto split: sum.splits)
  from s have "next_request p1 = next_request p + (if e = Refetch \<or> (e = Commit \<and> mount_due p) then 1 else 0)"
    and "mount_due p1 = (mount_due p \<and> e \<noteq> Commit)"
    by (auto dest: step_requests)
  with Cons.IH [OF r] show ?case by auto
qed

text \<open>C16: Every run of the page from its first render sends exactly one request for the mount effect (once a commit has happened) plus one for each dialog callback.\<close>

lemma requests_issued:
  "run initial_page es = Inr p \<Longrightarrow>
   next_request p = (if Commit \<in> set es then 1 else 0) + count_list es Refetch"
  using run_next_request_general [of initial_page es p] by (simp add: initial_page_def)

lemma requests_issued_witness:
  "run initial_page [Commit, Refetch, Commit, Refetch] = Inr (initial_page\<lparr>mount_due := False, filter_due := False, in_flight := [0, 1, 2], next_request := 3\<rparr>) \<and>
   next_request (initial_page\<lparr>mount_due := False, filter_due := False, in_flight := [0, 1, 2], next_request := 3\<rparr>) =
     (if Commit \<in> set [Commit, Refetch, Commit, Refetch] then 1 else 0) + count_list [Commit, Refetch, Commit, Refetch] Refetch"
proof -
  have r: "run initial_page [Commit, Refetch, Commit, Refetch] = Inr (initial_page\<lparr>mount_due := False, filter_due := False, in_flight := [0, 1, 2], next_request := 3\<rparr>)"
    by (simp add: initial_page_def controller_simps filter_patients_def)
  show ?thesis using requests_issued [OF r] r by simp
qed


text \<open>C10: Clearing the search shows every record: from every reachable page, typing the empty search text and letting React commit leaves the full list and makes the filtered list equal to it, in order and content, whatever the previous query and whether or not a filter effect was pending.\<close>

lemma clear_search_shows_all:
  "reachable p \<Longrightarrow> run p [Type_Query [], Commit] = Inr p' \<Longrightarrow>
   search_query p' = [] \<and> patients p' = patients p \<and> filtered_patients p' = patients p"
proof -
  assume reach: "reachable p" and r: "run p [Type_Query [], Commit] = Inr p'"
  let ?p1 = "set_search_query [] p"
  have p': "p' = commit ?p1" using r by simp
  have "reachable ?p1" using reachable.step [OF reach, of "Type_Query []"] by simp
  then have inv: "page_inv ?p1" by (rule reachable_page_inv)
  have q: "search_query ?p1 = []" by (simp add: set_search_query_def)
  have "filtered_patients (commit ?p1) = filter_patients (patients ?p1) []"
  proof (cases "filter_due ?p1")
    case True
    then show ?thesis using q by (simp add: commit_unfolds)
  next
    case False
    with inv q show ?thesis by (simp add: commit_unfolds page_inv_def)
  qed
  then show ?thesis using p' q by (simp add: filter_patients_empty_query)
qed

lemma clear_search_shows_all_witness:
  "reachable initial_page \<and>
   run initial_page [Type_Query [], Commit] = Inr (commit (set_search_query [] initial_page)) \<and>
   search_query (commit (set_search_query [] initial_page)) = [] \<and>
   patients (commit (set_search_query [] initial_page)) = patients initial_page \<and>
   filtered_patients (commit (set_search_query [] initial_page)) = patients initial_page"
proof -
  have r: "run initial_page [Type_Query [], Commit] = Inr (commit (set_search_query [] initial_page))"
    by simp
  show ?thesis using clear_search_shows_all [OF reachable.initial r] r reachable.initial by blast
qed

end
