(* ===== verification/Home.thy ===== *)
theory Home
  imports Prelude
begin

text \<open>
  The landing page \<open>src/src/pages/Home.tsx\<close>: a component without state or props that
  renders the same tree on every render. Its content is modelled as data, part by part
  in the order of the source: the header (logo and the link to the patient list), the
  hero panel (badge, title, text, highlight, image), the three feature cards produced by
  \<open>map\<close> over a literal array, the call-to-action link and the footer. Styling classes,
  icons' drawings, animation and the decorative background are not modelled, except the
  one class name the code computes, the feature card's icon background. The lemmas give
  the two links' targets, the keys of the feature cards, their computed class names, and
  the empty content of the call-to-action link.
\<close>

section \<open>Elements\<close>

record image =
  image_src :: js_string
  image_alt :: js_string

record link =
  link_to :: js_string
  link_text :: js_string

text \<open>A \<open>lucide-react\<close> icon: its component and its class.\<close>

record icon =
  icon_name :: js_string
  icon_class :: js_string

section \<open>Header (lines 15-32)\<close>

record header_view =
  header_logo :: image
  header_link :: link

definition home_header :: header_view where
  "home_header =
     \<lparr>header_logo = \<lparr>image_src = ''/PATH_Logo_Color (1).png'', image_alt = ''PATH Logo''\<rparr>,
      header_link = \<lparr>link_to = ''/patients'', link_text = ''Patient Records''\<rparr>\<rparr>"

section \<open>Hero panel (lines 53-92)\<close>

record hero_view =
  hero_badge :: js_string
  hero_title :: js_string
  hero_text :: js_string
  hero_highlights :: "(js_string \<times> js_string) list"
  hero_image :: image

text \<open>The title is \<open>Tele-\<close> followed by the highlighted span \<open>Sanjeevani\<close>.\<close>

definition home_hero :: hero_view where
  "home_hero =
     \<lparr>hero_badge = ''Next-Gen Tele-ICU Platform'',
      hero_title = ''Tele-'' @ ''Sanjeevani'',
      hero_text = ''Revolutionizing critical care with real-time AI monitoring, instant vital extraction, and seamless patient management infrastructure.'',
      hero_highlights = [(''Real-time Vitals'', ''Instant health tracking'')],
      hero_image = \<lparr>image_src = ''/Gemini_Generated_Image_6xwqr56xwqr56xwq.png'', image_alt = ''ICU Monitoring''\<rparr>\<rparr>"

section \<open>Feature cards (lines 99-131)\<close>

record feature =
  feature_icon :: icon
  feature_title :: js_string
  feature_desc :: js_string
  feature_color :: js_string

definition home_features :: "feature list" where
  "home_features =
     [\<lparr>feature_icon = \<lparr>icon_name = ''Camera'', icon_class = ''w-8 h-8 text-purple-500''\<rparr>,
       feature_title = ''AI Vision Analysis'',
       feature_desc = ''Powered by Hugging Face VLMs and Tesseract OCR for high-precision vital sign extraction from monitor feeds.'',
       feature_color = ''purple''\<rparr>,
      \<lparr>feature_icon = \<lparr>icon_name = ''Activity'', icon_class = ''w-8 h-8 text-blue-500''\<rparr>,
       feature_title = ''Live Monitoring'',
       feature_desc = ''Real-time dashboard updates with sub-second latency for critical decision making.'',
       feature_color = ''blue''\<rparr>,
      \<lparr>feature_icon = \<lparr>icon_name = ''FileVideo'', icon_class = ''w-8 h-8 text-teal-500''\<rparr>,
       feature_title = ''Patient Dashboards'',
       feature_desc = ''Centralized patient profiles with detailed vital history logs, graphical trends, and instant dashboard access.'',
       feature_color = ''teal''\<rparr>]"

text \<open>
  One card per feature, keyed by its index; the class of the icon's wrapper is the
  template literal of line 122, with the feature's colour spliced in.
\<close>

record feature_card =
  feature_key :: nat
  feature_wrapper_class :: js_string
  feature_card_icon :: icon
  feature_card_title :: js_string
  feature_card_desc :: js_string

definition render_feature :: "nat \<Rightarrow> feature \<Rightarrow> feature_card" where
  "render_feature idx f =
     \<lparr>feature_key = idx,
      feature_wrapper_class = ''w-16 h-16 rounded-2xl bg-'' @ feature_color f @
        ''-50 flex items-center justify-center mb-6 group-hover:scale-110 transition-transform'',
      feature_card_icon = feature_icon f,
      feature_card_title = feature_title f,
      feature_card_desc = feature_desc f\<rparr>"

definition feature_cards :: "feature list \<Rightarrow> feature_card list" where
  "feature_cards fs = map (\<lambda>(idx, f). render_feature idx f) (enumerate 0 fs)"

section \<open>Call to action (lines 133-141) and footer (lines 146-159)\<close>

text \<open>The link's only child is a decorative, empty \<open>div\<close>: it has no text.\<close>

definition home_cta :: link where
  "home_cta = \<lparr>link_to = ''/patients'', link_text = []\<rparr>"

record footer_view =
  footer_logo :: image
  footer_note :: js_string
  footer_tagline :: js_string

definition home_footer :: footer_view where
  "home_footer =
     \<lparr>footer_logo = \<lparr>image_src = ''/PATH_Logo_Color (1).png'', image_alt = ''PATH''\<rparr>,
      footer_note = '' 2025 Tele-Sanjeevani'',
      footer_tagline = ''Empowering Healthcare with Artificial Intelligence''\<rparr>"

section \<open>The page\<close>

record home_view =
  home_header_part :: header_view
  home_hero_part :: hero_view
  home_feature_cards :: "feature_card list"
  home_cta_part :: link
  home_footer_part :: footer_view

definition home_page :: home_view where
  "home_page =
     \<lparr>home_header_part = home_header, home_hero_part = home_hero,
      home_feature_cards = feature_cards home_features, home_cta_part = home_cta,
      home_footer_part = home_footer\<rparr>"

text \<open>The targets of the page's links, in document order.\<close>

definition home_links :: "js_string list" where
  "home_links = [link_to (header_link (home_header_part home_page)), link_to (home_cta_part home_page)]"

section \<open>Lemmas\<close>

lemma home_links_patients: "home_links = [''/patients'', ''/patients'']"
  by (simp add: home_links_def home_page_def home_header_def home_cta_def)

text \<open>The cards' keys are their positions, so they are distinct.\<close>

lemma feature_cards_keys: "map feature_key (feature_cards fs) = [0..<length fs]"
  by (simp add: feature_cards_def render_feature_def comp_def case_prod_unfold map_fst_enumerate)

lemma feature_cards_content:
  "map feature_card_title (feature_cards fs) = map feature_title fs \<and>
   map feature_card_desc (feature_cards fs) = map feature_desc fs"
proof -
  have snd: "map (\<lambda>x. g (snd x)) (enumerate 0 fs) = map g fs" for g :: "feature \<Rightarrow> js_string"
    using map_map [of g snd "enumerate 0 fs"] by (simp add: comp_def)
  show ?thesis
    by (simp add: feature_cards_def render_feature_def comp_def case_prod_unfold snd)
qed

text \<open>
  The background utility class of each card's icon is assembled at run time from the
  feature's colour; it is not a literal of the source.
\<close>

lemma feature_wrapper_class_token:
  "sublist (''bg-'' @ feature_color f @ ''-50'') (feature_wrapper_class (render_feature idx f))"
proof -
  have "feature_wrapper_class (render_feature idx f) =
          ''w-16 h-16 rounded-2xl '' @ (''bg-'' @ feature_color f @ ''-50'') @
          '' flex items-center justify-center mb-6 group-hover:scale-110 transition-transform''"
    by (simp add: render_feature_def)
  then show ?thesis by (metis sublist_appendI)
qed

lemma home_feature_colours: "map feature_color home_features = [''purple'', ''blue'', ''teal'']"
  by (simp add: home_features_def)

lemma home_cta_no_text: "link_text (home_cta_part home_page) = []"
  by (simp add: home_page_def home_cta_def)

end
