(* ===== verification/View.thy ===== *)
theory View
  imports Controller Home
begin

text \<open>
  What the two pages render, as data: the JSX of \<open>PatientRecords\<close>
  (\<open>src/src/pages/PatientRecords.tsx\<close>, lines 52-187) as a function of the controller's
  state, and the navigation links of \<open>Home\<close> (\<open>src/src/pages/Home.tsx\<close>). Styling,
  icons and animation are not modelled; the text, the links, the number of placeholders,
  the cards and which dialogs are offered are.
\<close>

section \<open>Rendered text\<close>

text \<open>
  The separator \<open>\<bullet>\<close> (U+2022) written between the header fields of a card, as its UTF-8
  bytes.
\<close>

definition bullet :: js_string where
  "bullet = [CHR 0xE2, CHR 0x80, CHR 0xA2]"

text \<open>
  \<open>{patient.bed_id && (<>\<bullet> Bed #{patient.bed_id}</>)}\<close> (lines 119-124): JavaScript's
  \<open>&&\<close> yields its left operand when that is falsy. \<open>null\<close> renders as nothing, but
  the number \<open>0\<close> is falsy too and React renders it as the text "0".
\<close>

fun bed_segments :: "js_int option \<Rightarrow> js_string list" where
  "bed_segments None = []"
| "bed_segments (Some n) = (if n = 0 then [int_to_string n] else [bullet, ''Bed #'' @ int_to_string n])"

section \<open>Cards\<close>

record card =
  card_key :: js_int
  avatar_text :: js_string
  card_title :: js_string
  card_meta :: "js_string list"
  diagnosis_label :: js_string
  diagnosis_text :: js_string
  admitted_text :: js_string
  monitor_link :: js_string
  monitor_text :: js_string
  delete_target :: "js_int \<times> js_string"

text \<open>
  One card (lines 105-165). The admission date is shown through
  \<open>new Date(...).toLocaleDateString()\<close>, which depends on the browser's locale and time
  zone; the model takes that formatter as a parameter.
\<close>

definition render_card :: "(js_string \<Rightarrow> js_string) \<Rightarrow> patient \<Rightarrow> card" where
  "render_card format_date p =
     \<lparr>card_key = patient_id p,
      avatar_text = char_at0 (patient_name p),
      card_title = patient_name p,
      card_meta = [''ID: #'' @ int_to_string (patient_id p)] @ bed_segments (bed_id p) @
                  [bullet, gender p, bullet, int_to_string (age p) @ '' yrs''],
      diagnosis_label = ''Diagnosis'',
      diagnosis_text = diagnosis p,
      admitted_text = ''Admitted: '' @ format_date (admission_date p),
      monitor_link = ''/dashboard?patientId='' @ int_to_string (patient_id p),
      monitor_text = ''Monitor'',
      delete_target = (patient_id p, patient_name p)\<rparr>"

section \<open>The page\<close>

datatype body_view = Skeleton nat | Card_Grid "card list"

record page_view =
  page_title :: js_string
  page_subtitle :: js_string
  back_link_text :: js_string
  search_placeholder :: js_string
  search_value :: js_string
  found_count :: nat
  found_label :: js_string
  page_body :: body_view
  empty_state :: bool
  empty_texts :: "js_string list"
  add_dialog_count :: nat

text \<open>
  The page (lines 52-187): the header's title, subtitle and back link (lines 63-70);
  the search input, controlled by \<open>searchQuery\<close> (lines 84-89); the count next to
  it, \<open>filteredPatients.length\<close>, followed by "patients found" (line 92); while
  loading, six placeholder blocks (lines 96-101), otherwise one card per filtered
  patient in order (lines 103-167); when not loading and nothing is filtered, the
  "No patients found" block with its two texts (lines 170-183), which holds a second
  \<open>AddPatientDialog\<close> beside the one in the header (line 73).
\<close>

definition render_page :: "(js_string \<Rightarrow> js_string) \<Rightarrow> page \<Rightarrow> page_view" where
  "render_page format_date p =
     \<lparr>page_title = ''Patient Records'',
      page_subtitle = ''Manage and monitor patient status'',
      back_link_text = ''Back to Home'',
      search_placeholder = ''Search by name, ID, or diagnosis...'',
      search_value = search_query p,
      found_count = length (filtered_patients p),
      found_label = '' patients found'',
      page_body = (if loading p then Skeleton 6
                   else Card_Grid (map (render_card format_date) (filtered_patients p))),
      empty_state = (\<not> loading p \<and> length (filtered_patients p) = 0),
      empty_texts = (if \<not> loading p \<and> length (filtered_patients p) = 0
                     then [''No patients found'',
                           ''Try adjusting your search terms or add a new patient to the system.'']
                     else []),
      add_dialog_count = (if \<not> loading p \<and> length (filtered_patients p) = 0 then 2 else 1)\<rparr>"

text \<open>
  The React keys of the rendered list: the placeholders are keyed by their number
  1 to 6 (line 98), the cards by the record's id (line 105).
\<close>

fun body_keys :: "body_view \<Rightarrow> js_int list" where
  "body_keys (Skeleton n) = map int [1..<Suc n]"
| "body_keys (Card_Grid cs) = map card_key cs"

section \<open>Navigation\<close>

text \<open>
  The links of the home page are \<open>Home.home_links\<close>. The records page links back to the
  home page (line 68) and, from each card, to the monitoring view (line 151).
\<close>

definition records_links :: "page_view \<Rightarrow> js_string list" where
  "records_links v =
     ''/'' # (case page_body v of Skeleton n \<Rightarrow> [] | Card_Grid cs \<Rightarrow> map monitor_link cs)"

text \<open>
  The consumer's side of the monitoring link: the route \<open>/dashboard\<close> with the patient
  id as its query parameter, read back with the decimal reader.
\<close>

definition monitor_prefix :: js_string where
  "monitor_prefix = ''/dashboard?patientId=''"

definition monitor_link_id :: "js_string \<Rightarrow> js_int option" where
  "monitor_link_id s =
     (if prefix monitor_prefix s then parse_int_string (drop (length monitor_prefix) s) else None)"

section \<open>Lemmas\<close>

lemma monitor_link_id_append [simp]: "monitor_link_id (monitor_prefix @ int_to_string i) = Some i"
  by (simp add: monitor_link_id_def parse_int_string_int_to_string)

lemma render_card_fields [simp]:
  "card_key (render_card fmt p) = patient_id p"
  "card_title (render_card fmt p) = patient_name p"
  "monitor_link (render_card fmt p) = monitor_prefix @ int_to_string (patient_id p)"
  "delete_target (render_card fmt p) = (patient_id p, patient_name p)"
  by (simp_all add: render_card_def monitor_prefix_def)

lemma render_page_fields [simp]:
  "found_count (render_page fmt p) = length (filtered_patients p)"
  "page_body (render_page fmt p) = (if loading p then Skeleton 6 else Card_Grid (map (render_card fmt) (filtered_patients p)))"
  "empty_state (render_page fmt p) \<longleftrightarrow> \<not> loading p \<and> filtered_patients p = []"
  "add_dialog_count (render_page fmt p) = (if \<not> loading p \<and> filtered_patients p = [] then 2 else 1)"
  "search_value (render_page fmt p) = search_query p"
  by (simp_all add: render_page_def)


text \<open>C7: While loading, the page renders the six placeholder blocks instead of any record, even if records are held, and does not show the empty state.\<close>

lemma render_loading_hides_records:
  "loading p \<Longrightarrow> page_body (render_page fmt p) = Skeleton 6 \<and> \<not> empty_state (render_page fmt p)"
  by (simp add: render_page_def)

lemma render_loading_hides_records_witness:
  "loading (initial_page\<lparr>patients := [asha_rao], filtered_patients := [asha_rao]\<rparr>) \<and>
   page_body (render_page id (initial_page\<lparr>patients := [asha_rao], filtered_patients := [asha_rao]\<rparr>)) = Skeleton 6 \<and>
   \<not> empty_state (render_page id (initial_page\<lparr>patients := [asha_rao], filtered_patients := [asha_rao]\<rparr>))"
  using render_loading_hides_records [of "initial_page\<lparr>patients := [asha_rao], filtered_patients := [asha_rao]\<rparr>" id]
  by (simp add: initial_page_def)


text \<open>C8: Once loading is over, the page renders one card per filtered record, in order; the displayed count is the number of cards; each card shows the record's id and name, its monitoring link decodes to the record's id, and its delete control targets that id.\<close>

lemma render_cards_follow_filtered:
  "\<not> loading p \<Longrightarrow>
   \<exists>cs. page_body (render_page fmt p) = Card_Grid cs \<and>
        found_count (render_page fmt p) = length cs \<and> length cs = length (filtered_patients p) \<and>
        (\<forall>i<length cs.
           card_key (cs ! i) = patient_id (filtered_patients p ! i) \<and>
           card_title (cs ! i) = patient_name (filtered_patients p ! i) \<and>
           monitor_link_id (monitor_link (cs ! i)) = Some (patient_id (filtered_patients p ! i)) \<and>
           delete_target (cs ! i) = (patient_id (filtered_patients p ! i), patient_name (filtered_patients p ! i)))"
  by (simp add: render_page_def)

lemma render_cards_follow_filtered_witness:
  "\<not> loading (initial_page\<lparr>loading := False, filtered_patients := [asha_rao]\<rparr>) \<and>
   (\<exists>cs. page_body (render_page id (initial_page\<lparr>loading := False, filtered_patients := [asha_rao]\<rparr>)) = Card_Grid cs \<and>
        found_count (render_page id (initial_page\<lparr>loading := False, filtered_patients := [asha_rao]\<rparr>)) = length cs \<and>
        length cs = length (filtered_patients (initial_page\<lparr>loading := False, filtered_patients := [asha_rao]\<rparr>)) \<and>
        (\<forall>i<length cs.
           card_key (cs ! i) = patient_id (filtered_patients (initial_page\<lparr>loading := False, filtered_patients := [asha_rao]\<rparr>) ! i) \<and>
           card_title (cs ! i) = patient_name (filtered_patients (initial_page\<lparr>loading := False, filtered_patients := [asha_rao]\<rparr>) ! i) \<and>
           monitor_link_id (monitor_link (cs ! i)) = Some (patient_id (filtered_patients (initial_page\<lparr>loading := False, filtered_patients := [asha_rao]\<rparr>) ! i)) \<and>
           delete_target (cs ! i) = (patient_id (filtered_patients (initial_page\<lparr>loading := False, filtered_patients := [asha_rao]\<rparr>) ! i), patient_name (filtered_patients (initial_page\<lparr>loading := False, filtered_patients := [asha_rao]\<rparr>) ! i))))"
proof -
  have h: "\<not> loading (initial_page\<lparr>loading := False, filtered_patients := [asha_rao]\<rparr>)" by simp
  show ?thesis using h render_cards_follow_filtered [OF h, of id] by blast
qed


text \<open>C9: The "No patients found" block is shown exactly when loading is over and the filtered list is empty, and its texts appear exactly then; it comes with an empty grid, a count of 0, and a second entry point for adding a patient.\<close>

lemma render_empty_state:
  "(empty_state (render_page fmt p) \<longleftrightarrow> \<not> loading p \<and> filtered_patients p = []) \<and>
   (empty_texts (render_page fmt p) \<noteq> [] \<longleftrightarrow> empty_state (render_page fmt p)) \<and>
   (empty_state (render_page fmt p) \<longrightarrow>
      page_body (render_page fmt p) = Card_Grid [] \<and> found_count (render_page fmt p) = 0 \<and>
      add_dialog_count (render_page fmt p) = 2 \<and>
      hd (empty_texts (render_page fmt p)) = ''No patients found'')"
  by (simp add: render_page_def)

lemma render_empty_state_witness:
  "(empty_state (render_page id (initial_page\<lparr>loading := False\<rparr>)) \<longleftrightarrow>
      \<not> loading (initial_page\<lparr>loading := False\<rparr>) \<and> filtered_patients (initial_page\<lparr>loading := False\<rparr>) = []) \<and>
   (empty_texts (render_page id (initial_page\<lparr>loading := False\<rparr>)) \<noteq> [] \<longleftrightarrow>
      empty_state (render_page id (initial_page\<lparr>loading := False\<rparr>))) \<and>
   empty_state (render_page id (initial_page\<lparr>loading := False\<rparr>)) \<and>
   page_body (render_page id (initial_page\<lparr>loading := False\<rparr>)) = Card_Grid [] \<and>
   found_count (render_page id (initial_page\<lparr>loading := False\<rparr>)) = 0 \<and>
   add_dialog_count (render_page id (initial_page\<lparr>loading := False\<rparr>)) = 2 \<and>
   hd (empty_texts (render_page id (initial_page\<lparr>loading := False\<rparr>))) = ''No patients found''"
proof -
  have e: "empty_state (render_page id (initial_page\<lparr>loading := False\<rparr>))"
    by (simp add: initial_page_def)
  show ?thesis using render_empty_state [of id "initial_page\<lparr>loading := False\<rparr>"] e by blast
qed

lemma bed_badge_prefix: "prefix ''Bed #'' (int_to_string n) \<Longrightarrow> False"
proof -
  assume "prefix ''Bed #'' (int_to_string n)"
  then have "CHR ''B'' \<in> set (int_to_string n)" by (auto dest: set_mono_prefix)
  then have "is_digit (CHR ''B'') \<or> CHR ''B'' = CHR ''-''" by (rule int_to_string_chars)
  then show False by (simp add: is_digit_def)
qed


text \<open>C17: The bed badge is shown exactly for a non-zero bed id; a bed id of 0 is treated like an unassigned bed and the card shows the stray text "0" in its place.\<close>

lemma bed_zero_rendered_as_text:
  "((\<exists>s\<in>set (bed_segments b). prefix ''Bed #'' s) \<longleftrightarrow> (\<exists>n. b = Some n \<and> n \<noteq> 0)) \<and>
   bed_segments (Some 0) = [''0'']"
proof (cases b)
  case None
  then show ?thesis by simp
next
  case (Some n)
  then show ?thesis
    by (auto simp: bullet_def dest: bed_badge_prefix)
qed

lemma bed_zero_rendered_as_text_witness:
  "((\<exists>s\<in>set (bed_segments (Some 5)). prefix ''Bed #'' s) \<longleftrightarrow> (\<exists>n. Some (5::int) = Some n \<and> n \<noteq> 0)) \<and>
   bed_segments (Some 0) = [''0'']"
  by (rule bed_zero_rendered_as_text)


text \<open>
  The records page's links: the way home, then one monitoring link per shown card, from
  which the monitoring view reads back exactly the card's record id.
\<close>

lemma records_links_ids:
  "hd (records_links (render_page fmt p)) = ''/'' \<and>
   map monitor_link_id (tl (records_links (render_page fmt p))) =
     (if loading p then [] else map (Some \<circ> patient_id) (filtered_patients p))"
  by (simp add: records_links_def comp_def)

end
