(* ===== verification/JsNumber.thy ===== *)
theory JsNumber
  imports Prelude
begin

text \<open>
  JavaScript numbers are IEEE 754 doubles. \<open>res.json()\<close> (\<open>PatientRecords.tsx\<close>, line 29)
  parses each number literal of the response, such as a patient's id, to the nearest
  double, ties to the one with the even significand. This theory models that parse on
  the integer literals the backend sends: \<open>double_round\<close> rounds an integer to 53
  significant bits, computed on the binary length of its magnitude. The reference is the
  specification of rounding in AFP's IEEE_Floating_Point: the result is a representable
  value (\<open>representable\<close>: a significand below \<open>2^53\<close> times a power of two) closest to
  the literal. The theorem shows that the computation meets it; it is the identity
  exactly on representable integers, so on every id of magnitude at most \<open>2^53\<close>.
  Magnitudes from \<open>2^1024\<close> on, which parse to \<open>Infinity\<close>, are outside the model.
\<close>

section \<open>Rounding an integer literal to a double\<close>

text \<open>The number of binary digits of a natural number (0 for 0).\<close>

fun bit_length :: "nat \<Rightarrow> nat" where
  "bit_length a = (if a = 0 then 0 else Suc (bit_length (a div 2)))"

declare bit_length.simps [simp del]

text \<open>
  A magnitude of at most 53 bits is a double; a longer one keeps its 53 leading bits
  \<open>q\<close>, and the dropped bits \<open>r\<close> decide whether \<open>q\<close> goes up by one: above the half,
  or at the half when \<open>q\<close> is odd.
\<close>

definition round_nat_to_double :: "nat \<Rightarrow> nat" where
  "round_nat_to_double a =
     (if bit_length a \<le> 53 then a
      else let e = bit_length a - 53; q = a div 2 ^ e; r = a mod 2 ^ e in
           (if 2 * r > 2 ^ e \<or> (2 * r = 2 ^ e \<and> odd q) then q + 1 else q) * 2 ^ e)"

definition double_round :: "int \<Rightarrow> int" where
  "double_round n =
     (if n < 0 then - int (round_nat_to_double (nat (- n))) else int (round_nat_to_double (nat n)))"

section \<open>The specification of rounding\<close>

definition representable :: "int \<Rightarrow> bool" where
  "representable m \<longleftrightarrow> (\<exists>s k. nat \<bar>m\<bar> = s * 2 ^ k \<and> s < 2 ^ 53)"

text \<open>\<open>x\<close> is a double closest to \<open>a\<close>, on magnitudes.\<close>

definition nearest_double :: "nat \<Rightarrow> nat \<Rightarrow> bool" where
  "nearest_double a x \<longleftrightarrow>
     (\<exists>s k. x = s * 2 ^ k \<and> s < 2 ^ 53) \<and>
     (\<forall>s k. s < 2 ^ 53 \<longrightarrow> \<bar>int x - int a\<bar> \<le> \<bar>int (s * 2 ^ k) - int a\<bar>)"

section \<open>Binary length\<close>

lemma bit_length_bounds: "0 < a \<Longrightarrow> 2 ^ (bit_length a - 1) \<le> a \<and> a < 2 ^ bit_length a"
proof (induction a rule: bit_length.induct)
  case (1 a)
  show ?case
  proof (cases "a div 2 = 0")
    case True
    with "1.prems" have "a = 1" by simp
    then show ?thesis by (simp add: bit_length.simps)
  next
    case False
    with "1.IH" "1.prems" have ih: "2 ^ (bit_length (a div 2) - 1) \<le> a div 2" "a div 2 < 2 ^ bit_length (a div 2)"
      by auto
    have len: "bit_length a = Suc (bit_length (a div 2))" using "1.prems" by (simp add: bit_length.simps)
    from False have pos: "0 < bit_length (a div 2)" by (simp add: bit_length.simps split: if_splits)
    from pos have "(2::nat) ^ bit_length (a div 2) = 2 * 2 ^ (bit_length (a div 2) - 1)"
      by (metis Suc_diff_1 power_Suc)
    also have "\<dots> \<le> 2 * (a div 2)" using ih(1) by simp
    also have "\<dots> \<le> a" by simp
    finally have "2 ^ bit_length (a div 2) \<le> a" .
    moreover from ih(2) have "a < 2 ^ Suc (bit_length (a div 2))" by simp
    ultimately show ?thesis by (simp add: len)
  qed
qed

lemma bit_length_eq: "2 ^ (L - 1) \<le> a \<Longrightarrow> a < 2 ^ L \<Longrightarrow> 0 < L \<Longrightarrow> bit_length a = L"
proof -
  assume lo: "2 ^ (L - 1) \<le> a" and hi: "a < 2 ^ L" and L: "0 < L"
  then have "0 < a" by (metis le_zero_eq not_gr_zero power_not_zero zero_neq_numeral)
  then have b: "2 ^ (bit_length a - 1) \<le> a" "a < 2 ^ bit_length a" using bit_length_bounds by blast+
  have "\<not> bit_length a < L"
  proof
    assume "bit_length a < L"
    then have "bit_length a \<le> L - 1" by simp
    then have "(2::nat) ^ bit_length a \<le> 2 ^ (L - 1)" by (rule power_increasing) simp
    with b(2) lo show False by linarith
  qed
  moreover have "\<not> L < bit_length a"
  proof
    assume "L < bit_length a"
    then have "L \<le> bit_length a - 1" by simp
    then have "(2::nat) ^ L \<le> 2 ^ (bit_length a - 1)" by (rule power_increasing) simp
    with b(1) hi show False by linarith
  qed
  ultimately show ?thesis by simp
qed

lemma bit_length_small: "bit_length a \<le> 53 \<Longrightarrow> a < 2 ^ 53"
proof (cases "a = 0")
  case False
  assume L: "bit_length a \<le> 53"
  from False have "a < 2 ^ bit_length a" using bit_length_bounds [of a] by simp
  also have "\<dots> \<le> 2 ^ 53" using power_increasing [OF L, of "2::nat"] by simp
  finally show ?thesis .
qed simp

text \<open>A magnitude longer than 53 bits has 53 leading bits between \<open>2^52\<close> and \<open>2^53\<close>.\<close>

lemma round_binade:
  assumes L: "53 < bit_length a"
  shows "2 ^ 52 \<le> a div 2 ^ (bit_length a - 53) \<and> a div 2 ^ (bit_length a - 53) < 2 ^ 53"
proof -
  let ?e = "bit_length a - 53"
  from L have "a \<noteq> 0" by (cases "a = 0") (simp_all add: bit_length.simps)
  then have b: "2 ^ (bit_length a - 1) \<le> a" "a < 2 ^ bit_length a" using bit_length_bounds [of a] by simp_all
  from L have l1: "bit_length a - 1 = 52 + ?e" and l2: "bit_length a = 53 + ?e" by simp_all
  have "(2::nat) ^ 52 = 2 ^ (52 + ?e) div 2 ^ ?e" by (simp add: power_add)
  also have "\<dots> \<le> a div 2 ^ ?e" using b(1) l1 by (metis div_le_mono)
  finally have lo: "2 ^ 52 \<le> a div 2 ^ ?e" .
  have "(2::nat) ^ bit_length a = 2 ^ 53 * 2 ^ ?e" using l2 by (metis power_add)
  with b(2) have "a < 2 ^ 53 * 2 ^ ?e" by simp
  then have "a div 2 ^ ?e < 2 ^ 53" by (simp add: less_mult_imp_div_less)
  with lo show ?thesis by simp
qed

section \<open>Closest doubles\<close>

text \<open>
  Between two consecutive multiples of \<open>2^e\<close> above \<open>2^52 * 2^e\<close> there is no double:
  a double that large has a power of two of at least \<open>2^e\<close>.
\<close>

lemma representable_nat_between:
  assumes s: "s < (2::nat) ^ 53" and lo: "2 ^ 52 * 2 ^ e \<le> q * 2 ^ e"
      and between: "q * 2 ^ e < s * 2 ^ k" "s * 2 ^ k < (q + 1) * 2 ^ e"
  shows False
proof (cases "k < e")
  case True
  have "(2::nat) ^ 53 * 2 ^ k = 2 ^ 52 * 2 ^ Suc k" by simp
  also have "\<dots> \<le> 2 ^ 52 * 2 ^ e"
    using True by (intro mult_le_mono2 power_increasing) simp_all
  finally have "(2::nat) ^ 53 * 2 ^ k \<le> 2 ^ 52 * 2 ^ e" .
  moreover have "s * 2 ^ k < 2 ^ 53 * 2 ^ k" using s by simp
  ultimately show False using lo between(1) by linarith
next
  case False
  then obtain d where k: "k = e + d" by (metis le_add_diff_inverse not_less)
  let ?t = "s * 2 ^ d"
  have m: "s * 2 ^ k = ?t * 2 ^ e" by (simp add: k power_add)
  from between(1) have "q * 2 ^ e < ?t * 2 ^ e" by (simp only: m)
  then have "q < ?t" by simp
  moreover from between(2) have "?t * 2 ^ e < (q + 1) * 2 ^ e" by (simp only: m)
  then have "?t < q + 1" by (simp only: mult_less_cancel2)
  ultimately show False by simp
qed

lemma nearest_double_exact: "a < 2 ^ 53 \<Longrightarrow> nearest_double a a"
proof -
  assume "a < 2 ^ 53"
  then have "a = a * 2 ^ 0 \<and> a < 2 ^ 53" by simp
  then show "nearest_double a a" unfolding nearest_double_def by (intro conjI allI impI) (blast, simp)
qed

text \<open>
  For \<open>a = q * 2^e + r\<close> with \<open>q\<close> of 53 bits, either neighbouring multiple of \<open>2^e\<close> that
  is no farther from \<open>a\<close> than the other is a closest double.
\<close>

lemma bracket_nearest:
  assumes q: "2 ^ 52 \<le> q" "q < (2::nat) ^ 53" and a: "a = q * 2 ^ e + r" and r: "r < 2 ^ e"
      and x: "x = q * 2 ^ e \<or> x = (q + 1) * 2 ^ e"
      and d: "\<bar>int x - int a\<bar> \<le> int r" "\<bar>int x - int a\<bar> \<le> int (2 ^ e) - int r"
  shows "nearest_double a x"
proof -
  have rep: "\<exists>s k. x = s * 2 ^ k \<and> s < 2 ^ 53"
  proof (cases "x = q * 2 ^ e \<or> q + 1 < 2 ^ 53")
    case True
    with x q(2) show ?thesis by blast
  next
    case False
    with q(2) have q1: "q + 1 = 2 ^ 53" by linarith
    from False x have "x = (q + 1) * 2 ^ e" by blast
    also have "\<dots> = 2 ^ 52 * 2 ^ Suc e" by (simp only: q1 power_Suc) simp
    finally have "x = 2 ^ 52 * 2 ^ Suc e" .
    moreover have "(2::nat) ^ 52 < 2 ^ 53" by simp
    ultimately show ?thesis by blast
  qed
  have "\<bar>int x - int a\<bar> \<le> \<bar>int (s * 2 ^ k) - int a\<bar>" if s: "s < 2 ^ 53" for s k
  proof -
    define m where "m = s * 2 ^ k"
    define lo where "lo = q * 2 ^ e"
    have lo52: "2 ^ 52 * 2 ^ e \<le> q * 2 ^ e" using q by simp
    have "\<not> (q * 2 ^ e < s * 2 ^ k \<and> s * 2 ^ k < (q + 1) * 2 ^ e)"
      using representable_nat_between [OF s lo52] by blast
    then have "m \<le> lo \<or> lo + 2 ^ e \<le> m" by (auto simp: m_def lo_def)
    then have side: "int m \<le> int lo \<or> int lo + int (2 ^ e) \<le> int m" by linarith
    have ia: "int a = int lo + int r" using a by (simp add: lo_def)
    have abs1: "int a - int m \<le> \<bar>int m - int a\<bar>" and abs2: "int m - int a \<le> \<bar>int m - int a\<bar>"
      by simp_all
    from side ia abs1 abs2 d show ?thesis unfolding m_def [symmetric] by linarith
  qed
  with rep show ?thesis unfolding nearest_double_def by blast
qed

lemma double_round_abs:
  "\<bar>double_round n - n\<bar> = \<bar>int (round_nat_to_double (nat \<bar>n\<bar>)) - int (nat \<bar>n\<bar>)\<bar> \<and>
   nat \<bar>double_round n\<bar> = round_nat_to_double (nat \<bar>n\<bar>)"
  by (cases "n < 0") (simp_all add: double_round_def abs_if)

text \<open>From magnitudes to signed integers: the sign is kept, so closeness carries over.\<close>

lemma double_round_nearest_of_nat:
  assumes "nearest_double (nat \<bar>n\<bar>) (round_nat_to_double (nat \<bar>n\<bar>))"
  shows "representable (double_round n) \<and>
         (\<forall>m. representable m \<longrightarrow> \<bar>double_round n - n\<bar> \<le> \<bar>m - n\<bar>) \<and>
         (double_round n = n \<longleftrightarrow> representable n)"
proof -
  let ?a = "nat \<bar>n\<bar>"
  note nat_near = assms [unfolded nearest_double_def]
  have rep: "representable (double_round n)"
    using nat_near double_round_abs [of n] by (simp add: representable_def)
  have near: "\<bar>double_round n - n\<bar> \<le> \<bar>m - n\<bar>" if "representable m" for m
  proof -
    from that obtain s k where m: "nat \<bar>m\<bar> = s * 2 ^ k" "s < 2 ^ 53" by (auto simp: representable_def)
    have "\<bar>double_round n - n\<bar> \<le> \<bar>int (s * 2 ^ k) - int ?a\<bar>"
      using nat_near m(2) double_round_abs [of n] by simp
    also have "\<dots> = \<bar>\<bar>m\<bar> - \<bar>n\<bar>\<bar>" using m(1) by (metis abs_ge_zero int_nat_eq of_nat_nat)
    also have "\<dots> \<le> \<bar>m - n\<bar>" by (rule abs_triangle_ineq3)
    finally show ?thesis .
  qed
  have "double_round n = n \<longleftrightarrow> representable n"
  proof
    assume "double_round n = n"
    with rep show "representable n" by simp
  next
    assume "representable n"
    from near [OF this] show "double_round n = n" by simp
  qed
  with rep near show ?thesis by blast
qed

lemma representable_small: "\<bar>n\<bar> \<le> 2 ^ 53 \<Longrightarrow> representable n"
proof (cases "\<bar>n\<bar> = 2 ^ 53")
  case True
  then have "nat \<bar>n\<bar> = 2 ^ 52 * 2 ^ 1 \<and> (2::nat) ^ 52 < 2 ^ 53" by simp
  then show ?thesis unfolding representable_def by blast
next
  case False
  assume "\<bar>n\<bar> \<le> 2 ^ 53"
  with False have "nat \<bar>n\<bar> = nat \<bar>n\<bar> * 2 ^ 0 \<and> nat \<bar>n\<bar> < 2 ^ 53" by simp
  then show ?thesis unfolding representable_def by blast
qed

text \<open>A literal that is a double is parsed exactly: its dropped bits are all zero.\<close>

lemma round_nat_to_double_exact:
  assumes a: "a = s * 2 ^ k" and s: "s < 2 ^ 53"
  shows "round_nat_to_double a = a"
proof (cases "bit_length a \<le> 53")
  case True
  then show ?thesis by (simp add: round_nat_to_double_def)
next
  case False
  define e where "e = bit_length a - 53"
  have q: "2 ^ 52 \<le> a div 2 ^ e" using round_binade [of a] False by (simp add: e_def)
  have "2 ^ e dvd a"
  proof (cases "e \<le> k")
    case True
    then obtain d where "k = e + d" by (metis le_add_diff_inverse)
    with a show ?thesis by (simp add: power_add)
  next
    case False
    have "(2::nat) ^ 53 * 2 ^ k = 2 ^ 52 * 2 ^ Suc k" by simp
    also have "\<dots> \<le> 2 ^ 52 * 2 ^ e"
      using False by (intro mult_le_mono2 power_increasing) simp_all
    also have "\<dots> \<le> a div 2 ^ e * 2 ^ e" using q by simp
    also have "\<dots> \<le> a" by simp
    finally have "2 ^ 53 * 2 ^ k \<le> a" .
    moreover have "a < 2 ^ 53 * 2 ^ k" using a s by simp
    ultimately show ?thesis by simp
  qed
  then have "a mod 2 ^ e = 0" "a div 2 ^ e * 2 ^ e = a" by simp_all
  then show ?thesis using False by (simp add: round_nat_to_double_def Let_def e_def [symmetric])
qed

lemma double_round_exact: "representable n \<Longrightarrow> double_round n = n"
proof -
  assume "representable n"
  then obtain s k where "nat \<bar>n\<bar> = s * 2 ^ k" "s < 2 ^ 53" by (auto simp: representable_def)
  then have "round_nat_to_double (nat \<bar>n\<bar>) = nat \<bar>n\<bar>" by (rule round_nat_to_double_exact)
  then show "double_round n = n" by (cases "n < 0") (simp_all add: double_round_def)
qed

text \<open>
  Ties go to the even significand: \<open>2^53 + 1\<close> lies halfway between the doubles
  \<open>2^53\<close> and \<open>2^53 + 2\<close> and parses to \<open>2^53\<close>; \<open>2^53 + 3\<close> parses to \<open>2^53 + 4\<close>.
\<close>

lemma double_round_ties:
  "double_round (2 ^ 53 + 1) = 2 ^ 53 \<and> double_round (2 ^ 53 + 3) = 2 ^ 53 + 4"
proof -
  have "bit_length (2 ^ 53 + 1) = 54" "bit_length (2 ^ 53 + 3) = 54"
    by (rule bit_length_eq; simp)+
  then show ?thesis by (simp add: double_round_def round_nat_to_double_def)
qed

text \<open>The rounding is \<open>JSON.parse\<close>'s: the result is a double closest to the literal, and the literal is kept exactly when it is a double.\<close>

theorem double_round_nearest:
  "representable (double_round n) \<and>
   (\<forall>m. representable m \<longrightarrow> \<bar>double_round n - n\<bar> \<le> \<bar>m - n\<bar>) \<and>
   (double_round n = n \<longleftrightarrow> representable n)"
proof -
  let ?a = "nat \<bar>n\<bar>"
  have "nearest_double ?a (round_nat_to_double ?a)"
  proof (cases "bit_length ?a \<le> 53")
    case True
    then have "round_nat_to_double ?a = ?a" by (simp add: round_nat_to_double_def)
    with True show ?thesis using nearest_double_exact bit_length_small by simp
  next
    case False
    define e where "e = bit_length ?a - 53"
    define q where "q = ?a div 2 ^ e"
    define r where "r = ?a mod 2 ^ e"
    have q: "2 ^ 52 \<le> q" "q < 2 ^ 53" using round_binade [of ?a] False by (simp_all add: e_def q_def)
    have a: "?a = q * 2 ^ e + r" by (simp add: q_def r_def div_mult_mod_eq)
    have r: "r < 2 ^ e" by (simp add: r_def)
    have res: "round_nat_to_double ?a = (if 2 * r > 2 ^ e \<or> (2 * r = 2 ^ e \<and> odd q) then q + 1 else q) * 2 ^ e"
      using False by (simp add: round_nat_to_double_def Let_def e_def q_def r_def)
    define E where "E = (2::nat) ^ e"
    have a': "?a = q * E + r" and r': "r < E" using a r by (simp_all add: E_def)
    show ?thesis
    proof (cases "2 * r > 2 ^ e \<or> (2 * r = 2 ^ e \<and> odd q)")
      case True
      with res have x: "round_nat_to_double ?a = (q + 1) * 2 ^ e" by simp
      moreover from True have "E \<le> 2 * r" by (auto simp: E_def)
      moreover have "(q + 1) * E = q * E + E" by simp
      ultimately have "\<bar>int (round_nat_to_double ?a) - int ?a\<bar> \<le> int r \<and>
          \<bar>int (round_nat_to_double ?a) - int ?a\<bar> \<le> int E - int r"
        using a' r' unfolding E_def [symmetric] by linarith
      with x show ?thesis using bracket_nearest [OF q a r] by (simp add: E_def)
    next
      case False
      with res have x: "round_nat_to_double ?a = q * 2 ^ e" by simp
      moreover from False have "2 * r \<le> E" by (auto simp: E_def)
      ultimately have "\<bar>int (round_nat_to_double ?a) - int ?a\<bar> \<le> int r \<and>
          \<bar>int (round_nat_to_double ?a) - int ?a\<bar> \<le> int E - int r"
        using a' r' unfolding E_def [symmetric] by linarith
      with x show ?thesis using bracket_nearest [OF q a r] by (simp add: E_def)
    qed
  qed
  then show ?thesis by (rule double_round_nearest_of_nat)
qed

end
