(* ===== verification/Json.thy ===== *)
theory Json
  imports Patient JsNumber
begin

text \<open>
  The filter callback of \<open>PatientRecords.tsx\<close> (lines 44-48) on the values that
  \<open>res.json()\<close> really yields: untyped JSON, not the \<open>Patient\<close> interface, which
  TypeScript does not check at run time. Property reads, \<open>toLowerCase()\<close> and
  \<open>toString()\<close> follow ECMAScript on each kind of value, a \<open>TypeError\<close> is the value
  \<open>Inl Type_Error\<close>, and \<open>||\<close> evaluates its operands left to right and stops at the
  first true one. The theorems show that on values conforming to the interface the
  callback and \<open>Array.prototype.filter\<close> compute the typed model of \<open>Patient\<close>, and
  that a record without a diagnosis throws exactly when its name and id do not match.
\<close>

section \<open>JSON values\<close>

text \<open>
  What \<open>JSON.parse\<close> produces; numbers are integers (the ids, ages and bed ids the
  backend sends), objects keep their fields in order, and a field read finds the last
  occurrence of a repeated key, as \<open>JSON.parse\<close> does.
\<close>

datatype json =
    J_Null
  | J_Bool bool
  | J_Num js_int
  | J_Str js_string
  | J_Arr "json list"
  | J_Obj "(js_string \<times> json) list"

datatype js_error = Type_Error

text \<open>Sequencing of a computation that may throw.\<close>

definition js_bind :: "js_error + 'a \<Rightarrow> ('a \<Rightarrow> js_error + 'b) \<Rightarrow> js_error + 'b" where
  "js_bind m f = (case m of Inl e \<Rightarrow> Inl e | Inr a \<Rightarrow> f a)"

definition field_of :: "(js_string \<times> json) list \<Rightarrow> js_string \<Rightarrow> json option" where
  "field_of kvs f = map_of (rev kvs) f"

text \<open>
  \<open>res.json()\<close> parses the body text with \<open>JSON.parse\<close>, which reads each number
  literal as the nearest double (\<open>JsNumber.double_round\<close>). \<open>parse_numbers\<close> maps the
  value the backend wrote, with its exact integers, to the value the page holds.
\<close>

fun parse_numbers :: "json \<Rightarrow> json" where
  "parse_numbers (J_Num i) = J_Num (double_round i)"
| "parse_numbers (J_Arr vs) = J_Arr (map parse_numbers vs)"
| "parse_numbers (J_Obj kvs) = J_Obj (map (\<lambda>(k, v). (k, parse_numbers v)) kvs)"
| "parse_numbers J_Null = J_Null"
| "parse_numbers (J_Bool b) = J_Bool b"
| "parse_numbers (J_Str s) = J_Str s"

section \<open>The operations of the callback\<close>

text \<open>
  \<open>v.f\<close> for the field names the callback reads, which no prototype defines: reading
  from \<open>null\<close> throws, an object yields its own field or \<open>undefined\<close> (\<open>None\<close>), and
  every other value yields \<open>undefined\<close>.
\<close>

fun get_field :: "json \<Rightarrow> js_string \<Rightarrow> js_error + json option" where
  "get_field J_Null f = Inl Type_Error"
| "get_field (J_Obj kvs) f = Inr (field_of kvs f)"
| "get_field _ f = Inr None"

text \<open>
  \<open>x.toLowerCase()\<close>: only a string has the method; on \<open>undefined\<close> and \<open>null\<close> the
  read throws and on any other value the call of a non-function throws.
\<close>

fun js_to_lower :: "json option \<Rightarrow> js_error + js_string" where
  "js_to_lower (Some (J_Str s)) = Inr (to_lower_case s)"
| "js_to_lower _ = Inl Type_Error"

text \<open>
  \<open>ToString\<close> as \<open>Array.prototype.join\<close> applies it to elements (\<open>null\<close> prints as
  the empty string), and \<open>x.toString()\<close> on a value read from a field: \<open>undefined\<close>
  and \<open>null\<close> throw; a parsed object prints as \<open>[object Object]\<close> unless it has an own
  field \<open>toString\<close>, which is then called and, not being a function, throws.
\<close>

fun to_string_value :: "json \<Rightarrow> js_error + js_string"
and join_elements :: "json list \<Rightarrow> js_error + js_string" where
  "to_string_value J_Null = Inr []"
| "to_string_value (J_Bool b) = Inr (if b then ''true'' else ''false'')"
| "to_string_value (J_Num i) = Inr (int_to_string i)"
| "to_string_value (J_Str s) = Inr s"
| "to_string_value (J_Arr vs) = join_elements vs"
| "to_string_value (J_Obj kvs) =
     (if ''toString'' \<in> set (map fst kvs) then Inl Type_Error else Inr ''[object Object]'')"
| "join_elements [] = Inr []"
| "join_elements (v # vs) =
     js_bind (to_string_value v)
       (\<lambda>a. if vs = [] then Inr a else js_bind (join_elements vs) (\<lambda>b. Inr (a @ '','' @ b)))"

fun js_call_to_string :: "json option \<Rightarrow> js_error + js_string" where
  "js_call_to_string None = Inl Type_Error"
| "js_call_to_string (Some J_Null) = Inl Type_Error"
| "js_call_to_string (Some v) = to_string_value v"

text \<open>The callback of \<open>patients.filter\<close>, operand by operand, and the filter itself.\<close>

definition matches_search_json :: "js_string \<Rightarrow> json \<Rightarrow> js_error + bool" where
  "matches_search_json search_query patient =
     js_bind (get_field patient ''patient_name'') (\<lambda>name. js_bind (js_to_lower name) (\<lambda>lname.
     if str_includes lname (to_lower_case search_query) then Inr True else
     js_bind (get_field patient ''patient_id'') (\<lambda>pid. js_bind (js_call_to_string pid) (\<lambda>sid.
     if str_includes sid search_query then Inr True else
     js_bind (get_field patient ''diagnosis'') (\<lambda>diag. js_bind (js_to_lower diag) (\<lambda>ldiag.
     Inr (str_includes ldiag (to_lower_case search_query))))))))"

fun filter_json :: "js_string \<Rightarrow> json list \<Rightarrow> js_error + json list" where
  "filter_json q [] = Inr []"
| "filter_json q (v # vs) =
     js_bind (matches_search_json q v) (\<lambda>keep. js_bind (filter_json q vs) (\<lambda>rest.
       Inr (if keep then v # rest else rest)))"

section \<open>The Patient interface\<close>

text \<open>
  The values the interface \<open>Patient\<close> (lines 10-18) describes: an object with numeric
  \<open>patient_id\<close> and \<open>age\<close>, string \<open>patient_name\<close>, \<open>gender\<close>, \<open>diagnosis\<close> and
  \<open>admission_date\<close>, and \<open>bed_id\<close> a number or \<open>null\<close>; \<open>patient_of_json\<close> reads
  such a value as the record of the typed model and is \<open>None\<close> on any other value.
\<close>

fun json_int :: "json option \<Rightarrow> js_int option" where
  "json_int (Some (J_Num i)) = Some i"
| "json_int _ = None"

fun json_str :: "json option \<Rightarrow> js_string option" where
  "json_str (Some (J_Str s)) = Some s"
| "json_str _ = None"

fun json_bed :: "json option \<Rightarrow> js_int option option" where
  "json_bed (Some (J_Num i)) = Some (Some i)"
| "json_bed (Some J_Null) = Some None"
| "json_bed _ = None"

fun patient_of_json :: "json \<Rightarrow> patient option" where
  "patient_of_json (J_Obj kvs) =
     (case (json_int (field_of kvs ''patient_id''), json_str (field_of kvs ''patient_name''),
            json_int (field_of kvs ''age''), json_str (field_of kvs ''gender''),
            json_str (field_of kvs ''diagnosis''), json_str (field_of kvs ''admission_date''),
            json_bed (field_of kvs ''bed_id'')) of
        (Some i, Some n, Some a, Some g, Some d, Some ad, Some b) \<Rightarrow>
          Some \<lparr>patient_id = i, patient_name = n, age = a, gender = g, diagnosis = d,
                admission_date = ad, bed_id = b\<rparr>
      | _ \<Rightarrow> None)"
| "patient_of_json _ = None"

definition asha_rao_json :: json where
  "asha_rao_json = J_Obj [(''patient_id'', J_Num 1), (''patient_name'', J_Str ''Asha Rao''),
     (''age'', J_Num 34), (''gender'', J_Str ''F''), (''diagnosis'', J_Str ''Pneumonia''),
     (''admission_date'', J_Str ''2025-01-02''), (''bed_id'', J_Num 5)]"

text \<open>Two records the backend may write, with the distinct ids \<open>2^53\<close> and \<open>2^53 + 1\<close>.\<close>

definition twin_ids_json :: "json list" where
  "twin_ids_json = [J_Obj [(''patient_id'', J_Num (2 ^ 53))], J_Obj [(''patient_id'', J_Num (2 ^ 53 + 1))]]"

definition ravi_no_diagnosis :: json where
  "ravi_no_diagnosis = J_Obj [(''patient_id'', J_Num 7), (''patient_name'', J_Str ''Ravi'')]"

lemma js_bind_simps [simp]:
  "js_bind (Inl e) f = Inl e" "js_bind (Inr a) f = f a"
  by (simp_all add: js_bind_def)

lemma json_int_Some [simp]: "json_int x = Some i \<longleftrightarrow> x = Some (J_Num i)"
  by (cases x rule: json_int.cases) auto

lemma json_str_Some [simp]: "json_str x = Some s \<longleftrightarrow> x = Some (J_Str s)"
  by (cases x rule: json_str.cases) auto

lemma field_of_parse_numbers:
  "field_of (map (\<lambda>(k, v). (k, parse_numbers v)) kvs) f = map_option parse_numbers (field_of kvs f)"
  by (simp add: field_of_def rev_map map_of_map)

lemma json_int_parse_numbers [simp]:
  "json_int (map_option parse_numbers x) = map_option double_round (json_int x)"
  by (cases x rule: json_int.cases) simp_all

lemma json_str_parse_numbers [simp]: "json_str (map_option parse_numbers x) = json_str x"
  by (cases x rule: json_str.cases) simp_all

lemma json_bed_parse_numbers [simp]:
  "json_bed (map_option parse_numbers x) = map_option (map_option double_round) (json_bed x)"
  by (cases x rule: json_bed.cases) simp_all

text \<open>Reading a parsed record is reading the written one with its numbers rounded.\<close>

lemma patient_of_json_parse_numbers:
  "patient_of_json (parse_numbers v) =
     map_option (\<lambda>p. p\<lparr>patient_id := double_round (patient_id p), age := double_round (age p),
                        bed_id := map_option double_round (bed_id p)\<rparr>) (patient_of_json v)"
  by (cases v) (auto simp: field_of_parse_numbers split: option.splits)

text \<open>So records whose numbers are doubles, in particular ids up to \<open>2^53\<close>, arrive intact.\<close>

lemma patient_of_json_parse_exact:
  "patient_of_json v = Some p \<Longrightarrow> representable (patient_id p) \<Longrightarrow> representable (age p) \<Longrightarrow>
   (\<forall>b. bed_id p = Some b \<longrightarrow> representable b) \<Longrightarrow> patient_of_json (parse_numbers v) = Some p"
  by (cases "bed_id p") (simp_all add: patient_of_json_parse_numbers double_round_exact)

text \<open>Two distinct ids above \<open>2^53\<close> can arrive as one.\<close>

lemma twin_ids_collide:
  "map (\<lambda>v. get_field v ''patient_id'') twin_ids_json = [Inr (Some (J_Num (2 ^ 53))), Inr (Some (J_Num (2 ^ 53 + 1)))] \<and>
   map (\<lambda>v. get_field (parse_numbers v) ''patient_id'') twin_ids_json = [Inr (Some (J_Num (2 ^ 53))), Inr (Some (J_Num (2 ^ 53)))]"
  using double_round_ties double_round_exact [OF representable_small [of "2 ^ 53"]]
  by (simp add: twin_ids_json_def field_of_def)

lemma patient_of_json_SomeD:
  assumes "patient_of_json v = Some p"
  shows "\<exists>kvs. v = J_Obj kvs \<and> field_of kvs ''patient_id'' = Some (J_Num (patient_id p))
           \<and> field_of kvs ''patient_name'' = Some (J_Str (patient_name p))
           \<and> field_of kvs ''diagnosis'' = Some (J_Str (diagnosis p))"
  using assms by (cases v) (auto split: option.splits)

lemma matches_search_json_typed:
  assumes "patient_of_json v = Some p"
  shows "matches_search_json q v = Inr (matches_search q p)"
  using patient_of_json_SomeD [OF assms]
  by (auto simp: matches_search_json_def matches_search_def simp del: matches_search_eq_spec_passes)

text \<open>C19: On a decoded array whose elements all conform to the Patient interface, the untyped filter callback never throws and \<open>patients.filter\<close> returns exactly the elements of the typed model's filter, in order.\<close>

lemma filter_json_typed:
  assumes "list_all2 (\<lambda>v p. patient_of_json v = Some p) vs ps"
  shows "\<exists>ws. filter_json q vs = Inr ws \<and>
              list_all2 (\<lambda>v p. patient_of_json v = Some p) ws (filter_patients ps q)"
  using assms
proof (induction vs ps rule: list_all2_induct)
  case Nil
  then show ?case by (simp add: filter_patients_def)
next
  case (Cons v vs p ps)
  then obtain ws where ws: "filter_json q vs = Inr ws"
      "list_all2 (\<lambda>v p. patient_of_json v = Some p) ws (filter_patients ps q)" by blast
  with Cons.hyps(1) show ?case
    by (simp add: matches_search_json_typed filter_patients_def)
qed

text \<open>C20: An element with a string name and a numeric id but no diagnosis field is kept when its name or id matches the query, and otherwise makes the callback throw a TypeError (calling toLowerCase on undefined).\<close>

lemma missing_diagnosis:
  assumes "get_field v ''patient_name'' = Inr (Some (J_Str n))"
      and "get_field v ''patient_id'' = Inr (Some (J_Num i))"
      and "get_field v ''diagnosis'' = Inr None"
  shows "matches_search_json q v =
           (if str_includes (to_lower_case n) (to_lower_case q) \<or> str_includes (int_to_string i) q
            then Inr True else Inl Type_Error)"
  using assms by (simp add: matches_search_json_def)

lemma filter_json_typed_witness:
  "list_all2 (\<lambda>v p. patient_of_json v = Some p) [asha_rao_json] [asha_rao] \<and>
   (\<exists>ws. filter_json ''pneu'' [asha_rao_json] = Inr ws \<and>
         list_all2 (\<lambda>v p. patient_of_json v = Some p) ws (filter_patients [asha_rao] ''pneu''))"
proof -
  have h: "list_all2 (\<lambda>v p. patient_of_json v = Some p) [asha_rao_json] [asha_rao]"
    by (simp add: asha_rao_json_def asha_rao_def field_of_def)
  show ?thesis using h filter_json_typed [OF h, of "''pneu''"] by blast
qed

lemma missing_diagnosis_witness:
  "get_field ravi_no_diagnosis ''patient_name'' = Inr (Some (J_Str ''Ravi'')) \<and>
   get_field ravi_no_diagnosis ''patient_id'' = Inr (Some (J_Num 7)) \<and>
   get_field ravi_no_diagnosis ''diagnosis'' = Inr None \<and>
   matches_search_json ''zz'' ravi_no_diagnosis = Inl Type_Error \<and>
   matches_search_json ''7'' ravi_no_diagnosis = Inr True"
proof -
  have h: "get_field ravi_no_diagnosis ''patient_name'' = Inr (Some (J_Str ''Ravi''))"
          "get_field ravi_no_diagnosis ''patient_id'' = Inr (Some (J_Num 7))"
          "get_field ravi_no_diagnosis ''diagnosis'' = Inr None"
    by (simp_all add: ravi_no_diagnosis_def field_of_def)
  have n1: "\<not> (str_includes (to_lower_case ''Ravi'') (to_lower_case ''zz'') \<or> str_includes (int_to_string 7) ''zz'')"
    by code_simp
  have n2: "str_includes (to_lower_case ''Ravi'') (to_lower_case ''7'') \<or> str_includes (int_to_string 7) ''7''"
    by code_simp
  show ?thesis
    using h n1 n2 missing_diagnosis [OF h, of "''zz''"] missing_diagnosis [OF h, of "''7''"] by simp
qed

end
