(* ===== verification/Mutations.thy ===== *)
theory Mutations
  imports Controller Json
begin

text \<open>
  The page together with what it talks to: the add and delete dialogs
  (\<open>AddPatientDialog\<close>, \<open>DeletePatientDialog\<close>, whose sources are not among the
  repository's sources and are modelled from the specification's callback contract) and
  the backend that holds the authoritative patient list. The backend is the environment:
  it answers each pending \<open>GET /api/patients\<close> with the list it holds when it serves
  the request, and the answer reaches the page later. Requests are served and delivered
  in any order, as over a real network. The backend writes its records with exact
  integers; the page holds what \<open>res.json()\<close> reads back, each number rounded to the
  nearest double (\<open>parse_patient\<close>, which is \<open>Json.parse_numbers\<close> on one record).
\<close>

section \<open>Dialogs\<close>

datatype mutation = Add_Patient patient | Delete_Patient js_int

text \<open>
  Specification, section 4.1: a dialog that created or removed a record through its own
  request calls the page's refetch callback exactly once when that request succeeded,
  and never when it failed.
\<close>

definition dialog_callback :: "bool \<Rightarrow> event list" where
  "dialog_callback succeeded = (if succeeded then [Refetch] else [])"

section \<open>The backend\<close>

text \<open>
  The backend's effect of a successful mutation on the list it serves: a created record
  is appended under an id the backend assigns (specification, section 3: ids are
  assigned by the backend and unique; here one more than the largest id held), a
  deletion removes the records with that id.
\<close>

definition fresh_id :: "patient list \<Rightarrow> js_int" where
  "fresh_id store = Max (set (0 # map patient_id store)) + 1"

fun apply_mutation :: "mutation \<Rightarrow> patient list \<Rightarrow> patient list" where
  "apply_mutation (Add_Patient p) store = store @ [p\<lparr>patient_id := fresh_id store\<rparr>]"
| "apply_mutation (Delete_Patient i) store = filter (\<lambda>q. patient_id q \<noteq> i) store"

text \<open>
  The record the page receives for a record the backend holds: \<open>JSON.parse\<close> reads
  the id, the age and the bed id as doubles (\<open>JsNumber.double_round\<close>).
\<close>

definition parse_patient :: "patient \<Rightarrow> patient" where
  "parse_patient p =
     p\<lparr>patient_id := double_round (patient_id p), age := double_round (age p),
       bed_id := map_option double_round (bed_id p)\<rparr>"

section \<open>The system\<close>

record sys =
  sys_page :: page
  store :: "patient list"
  answers :: "(nat \<times> fetch_outcome) list"

datatype sys_event =
    Ui_Commit
  | Ui_Type js_string
  | Serve nat
  | Deliver nat
  | Mutate mutation bool

definition sys_init :: "patient list \<Rightarrow> sys" where
  "sys_init backend = \<lparr>sys_page = initial_page, store = backend, answers = []\<rparr>"

text \<open>
  \<open>Serve r\<close>: the backend answers pending request \<open>r\<close> with the list it holds now,
  as the page will decode it.
  \<open>Deliver r\<close>: the page receives the answer of \<open>r\<close>. \<open>Mutate m ok\<close>: a dialog's
  request completes, successfully or not; on success the backend applies it, and the
  dialog then calls the callback. A page event that fails fails the system.
\<close>

definition run_page :: "sys \<Rightarrow> event list \<Rightarrow> page_error + sys" where
  "run_page s es = (case run (sys_page s) es of Inl err \<Rightarrow> Inl err | Inr p \<Rightarrow> Inr (s\<lparr>sys_page := p\<rparr>))"

fun sys_step :: "sys \<Rightarrow> sys_event \<Rightarrow> page_error + sys" where
  "sys_step s Ui_Commit = run_page s [Commit]"
| "sys_step s (Ui_Type q) = run_page s [Type_Query q]"
| "sys_step s (Serve r) =
     (if r \<in> set (in_flight (sys_page s)) \<and> r \<notin> fst ` set (answers s)
      then Inr (s\<lparr>answers := answers s @ [(r, Http_Response 200 (Json_Array (map parse_patient (store s))))]\<rparr>)
      else Inr s)"
| "sys_step s (Deliver r) =
     (case map_of (answers s) r of
        None \<Rightarrow> Inr s
      | Some out \<Rightarrow> run_page (s\<lparr>answers := filter (\<lambda>a. fst a \<noteq> r) (answers s)\<rparr>) [Resolve r out])"
| "sys_step s (Mutate m ok) =
     run_page (if ok then s\<lparr>store := apply_mutation m (store s)\<rparr> else s) (dialog_callback ok)"

fun sys_run :: "sys \<Rightarrow> sys_event list \<Rightarrow> page_error + sys" where
  "sys_run s [] = Inr s"
| "sys_run s (e # es) = (case sys_step s e of Inl err \<Rightarrow> Inl err | Inr s' \<Rightarrow> sys_run s' es)"

text \<open>The system once the page has loaded one record and settled: used by the witnesses.\<close>

definition loaded_sys :: sys where
  "loaded_sys =
     \<lparr>sys_page = \<lparr>patients = [asha_rao], filtered_patients = [asha_rao], loading = False,
        search_query = [], mount_due = False, filter_due = False, in_flight = [], next_request = 1\<rparr>,
      store = [asha_rao], answers = []\<rparr>"

inductive sys_reachable :: "sys \<Rightarrow> bool" where
  init: "sys_reachable (sys_init backend)"
| step: "sys_reachable s \<Longrightarrow> sys_step s e = Inr s' \<Longrightarrow> sys_reachable s'"

text \<open>
  What the system keeps true: every answer waiting for delivery is the backend's
  well-formed reply to a request that is still pending, and requests are answered once.
\<close>

definition sys_inv :: "sys \<Rightarrow> bool" where
  "sys_inv s \<longleftrightarrow>
     (\<forall>(r, out) \<in> set (answers s). r \<in> set (in_flight (sys_page s)) \<and>
        (\<exists>ps. out = Http_Response 200 (Json_Array ps))) \<and>
     distinct (map fst (answers s))"

text \<open>
  Unique ids (specification, section 3): in the backend's list, in the page's two lists,
  and in every answer waiting for delivery.
\<close>

definition ids_distinct :: "patient list \<Rightarrow> bool" where
  "ids_distinct ps \<longleftrightarrow> distinct (map patient_id ps)"

text \<open>
  The backend's ids stay doubles for \<open>n\<close> more events: each has magnitude at most
  \<open>2^53 - n\<close>, so the ids of the next \<open>n\<close> created records are doubles as well.
\<close>

definition ids_bounded :: "nat \<Rightarrow> patient list \<Rightarrow> bool" where
  "ids_bounded n ps \<longleftrightarrow> int n \<le> 2 ^ 53 \<and> (\<forall>p\<in>set ps. \<bar>patient_id p\<bar> + int n \<le> 2 ^ 53)"

definition sys_ids_inv :: "nat \<Rightarrow> sys \<Rightarrow> bool" where
  "sys_ids_inv n s \<longleftrightarrow>
     ids_distinct (store s) \<and> ids_bounded n (store s) \<and> ids_distinct (patients (sys_page s)) \<and>
     ids_distinct (filtered_patients (sys_page s)) \<and>
     (\<forall>a \<in> set (answers s). \<forall>n ps. snd a = Http_Response n (Json_Array ps) \<longrightarrow> ids_distinct ps)"

section \<open>Lemmas\<close>

lemma in_flight_commit: "set (in_flight p) \<subseteq> set (in_flight (commit p))"
  by (auto simp: commit_unfolds)

lemma run_page_Inr:
  "run_page s es = Inr s' \<Longrightarrow> run (sys_page s) es = Inr (sys_page s')"
  by (auto simp: run_page_def split: sum.splits)

lemma sys_step_page_run:
  "sys_step s e = Inr s' \<Longrightarrow> \<exists>es. run (sys_page s) es = Inr (sys_page s')"
proof (cases e)
  case Ui_Commit
  assume "sys_step s e = Inr s'"
  with Ui_Commit have "run_page s [Commit] = Inr s'" by simp
  then have "run (sys_page s) [Commit] = Inr (sys_page s')" by (rule run_page_Inr)
  then show ?thesis by blast
next
  case (Ui_Type q)
  assume "sys_step s e = Inr s'"
  with Ui_Type have "run_page s [Type_Query q] = Inr s'" by simp
  then have "run (sys_page s) [Type_Query q] = Inr (sys_page s')" by (rule run_page_Inr)
  then show ?thesis by blast
next
  case (Serve r)
  assume "sys_step s e = Inr s'"
  with Serve have "sys_page s' = sys_page s" by (auto split: if_splits)
  then show ?thesis by (metis run.simps(1))
next
  case (Deliver r)
  assume st: "sys_step s e = Inr s'"
  show ?thesis
  proof (cases "map_of (answers s) r")
    case None
    with st Deliver have "s' = s" by simp
    then show ?thesis by (metis run.simps(1))
  next
    case (Some out)
    with st Deliver have "run_page (s\<lparr>answers := filter (\<lambda>a. fst a \<noteq> r) (answers s)\<rparr>) [Resolve r out] = Inr s'"
      by simp
    then have "run (sys_page (s\<lparr>answers := filter (\<lambda>a. fst a \<noteq> r) (answers s)\<rparr>)) [Resolve r out] = Inr (sys_page s')"
      by (rule run_page_Inr)
    moreover have "sys_page (s\<lparr>answers := filter (\<lambda>a. fst a \<noteq> r) (answers s)\<rparr>) = sys_page s"
      by simp
    ultimately have "run (sys_page s) [Resolve r out] = Inr (sys_page s')" by (simp only:)
    then show ?thesis by blast
  qed
next
  case (Mutate m ok)
  assume "sys_step s e = Inr s'"
  with Mutate have "run_page (if ok then s\<lparr>store := apply_mutation m (store s)\<rparr> else s) (dialog_callback ok) = Inr s'"
    by simp
  then have "run (sys_page (if ok then s\<lparr>store := apply_mutation m (store s)\<rparr> else s)) (dialog_callback ok) = Inr (sys_page s')"
    by (rule run_page_Inr)
  moreover have "sys_page (if ok then s\<lparr>store := apply_mutation m (store s)\<rparr> else s) = sys_page s"
    by simp
  ultimately have "run (sys_page s) (dialog_callback ok) = Inr (sys_page s')" by (simp only:)
  then show ?thesis by blast
qed

lemma sys_inv_init: "sys_inv (sys_init backend)"
  by (simp add: sys_inv_def sys_init_def)


lemma fetch_patients_finish_in_flight:
  "fetch_patients_finish out p = Inr p' \<Longrightarrow> in_flight p' = in_flight p"
  by (erule fetch_patients_finish_InrE) auto

lemma sys_inv_keep_answers:
  "sys_inv s \<Longrightarrow> set (in_flight (sys_page s)) \<subseteq> set (in_flight (sys_page s')) \<Longrightarrow>
   answers s' = answers s \<Longrightarrow> sys_inv s'"
  by (auto simp: sys_inv_def)

lemma sys_inv_step: "sys_inv s \<Longrightarrow> sys_step s e = Inr s' \<Longrightarrow> sys_inv s'"
proof (cases e)
  case Ui_Commit
  assume inv: "sys_inv s" and "sys_step s e = Inr s'"
  with Ui_Commit have "s' = s\<lparr>sys_page := commit (sys_page s)\<rparr>" by (simp add: run_page_def)
  then show ?thesis
    using sys_inv_keep_answers [OF inv, of "s\<lparr>sys_page := commit (sys_page s)\<rparr>"] in_flight_commit
    by simp
next
  case (Ui_Type q)
  assume "sys_inv s" "sys_step s e = Inr s'"
  with Ui_Type show ?thesis
    by (auto simp: run_page_def intro: sys_inv_keep_answers)
next
  case (Serve r)
  assume "sys_inv s" "sys_step s e = Inr s'"
  with Serve show ?thesis
    by (auto simp: sys_inv_def split: if_splits)
next
  case (Deliver r)
  assume inv: "sys_inv s" and st: "sys_step s e = Inr s'"
  show ?thesis
  proof (cases "map_of (answers s) r")
    case None
    with st Deliver show ?thesis using inv by simp
  next
    case (Some out)
    with inv have r: "r \<in> set (in_flight (sys_page s))"
      by (auto simp: sys_inv_def dest!: map_of_SomeD)
    from st Deliver Some r obtain p' where
      fin: "fetch_patients_finish out ((sys_page s)\<lparr>in_flight := remove1 r (in_flight (sys_page s))\<rparr>) = Inr p'"
      and s': "s' = s\<lparr>answers := filter (\<lambda>a. fst a \<noteq> r) (answers s), sys_page := p'\<rparr>"
      by (auto simp: run_page_def split: sum.splits)
    from fin have "in_flight p' = remove1 r (in_flight (sys_page s))"
      by (auto dest: fetch_patients_finish_in_flight)
    with inv s' show ?thesis
      by (auto simp: sys_inv_def distinct_map_filter)
  qed
next
  case (Mutate m ok)
  assume "sys_inv s" "sys_step s e = Inr s'"
  with Mutate show ?thesis
    by (cases ok) (auto simp: run_page_def dialog_callback_def fetch_patients_start_def sys_inv_def)
qed

lemma sys_reachable_inv: "sys_reachable s \<Longrightarrow> sys_inv s"
proof (induction rule: sys_reachable.induct)
  case (init backend)
  show ?case by (rule sys_inv_init)
next
  case (step s e s')
  then show ?case by (blast intro: sys_inv_step)
qed

lemma sys_reachable_run: "sys_run s es = Inr s' \<Longrightarrow> sys_reachable s \<Longrightarrow> sys_reachable s'"
proof (induction s es rule: sys_run.induct)
  case (1 s)
  then show ?case by simp
next
  case (2 s e es)
  then show ?case by (auto split: sum.splits intro: sys_reachable.step)
qed

section \<open>Decoding\<close>

lemma parse_patient_exact:
  "\<bar>patient_id p\<bar> \<le> 2 ^ 53 \<Longrightarrow> patient_id (parse_patient p) = patient_id p"
  by (simp add: parse_patient_def double_round_exact representable_small)

text \<open>A record the backend writes and the page decodes is read as \<open>parse_patient\<close>.\<close>

lemma patient_of_json_parse_patient:
  "patient_of_json v = Some p \<Longrightarrow> patient_of_json (parse_numbers v) = Some (parse_patient p)"
  by (simp add: patient_of_json_parse_numbers parse_patient_def)

lemma parse_patient_asha_rao [simp]: "parse_patient asha_rao = asha_rao"
  by (simp add: parse_patient_def asha_rao_def double_round_exact representable_small)

lemma loaded_sys_run:
  "sys_run (sys_init [asha_rao]) [Ui_Commit, Serve 0, Deliver 0, Ui_Commit] = Inr loaded_sys"
  by (simp add: loaded_sys_def sys_init_def initial_page_def run_page_def controller_simps
      filter_asha_rao_pneu [unfolded filter_patients_def] filter_patients_def)

lemma loaded_sys_reachable: "sys_reachable loaded_sys"
  using loaded_sys_run by (rule sys_reachable_run) (rule sys_reachable.init)

section \<open>Unique ids\<close>

lemma fresh_id_fresh: "fresh_id ps \<notin> set (map patient_id ps)"
proof
  assume "fresh_id ps \<in> set (map patient_id ps)"
  then have "fresh_id ps \<le> Max (set (0 # map patient_id ps))" by simp
  then show False by (simp add: fresh_id_def)
qed

lemma fresh_id_bounded:
  "ids_bounded (Suc n) ps \<Longrightarrow> 0 < fresh_id ps \<and> fresh_id ps + int n \<le> 2 ^ 53"
proof -
  assume b: "ids_bounded (Suc n) ps"
  have "Max (set (0 # map patient_id ps)) \<in> set (0 # map patient_id ps)"
    by (rule Max_in) simp_all
  then consider "Max (set (0 # map patient_id ps)) = 0"
    | p where "p \<in> set ps" "Max (set (0 # map patient_id ps)) = patient_id p"
    by auto
  then have "Max (set (0 # map patient_id ps)) + int (Suc n) \<le> 2 ^ 53"
  proof cases
    case 1
    with b show ?thesis by (simp add: ids_bounded_def)
  next
    case (2 p)
    with b have "\<bar>patient_id p\<bar> + int (Suc n) \<le> 2 ^ 53" by (simp add: ids_bounded_def)
    with 2 show ?thesis by simp
  qed
  moreover have "0 \<le> Max (set (0 # map patient_id ps))" by simp
  ultimately show ?thesis by (simp add: fresh_id_def)
qed

lemma ids_bounded_Suc: "ids_bounded (Suc n) ps \<Longrightarrow> ids_bounded n ps"
  by (auto simp: ids_bounded_def)

lemma ids_bounded_apply_mutation:
  "ids_bounded (Suc n) ps \<Longrightarrow> ids_bounded n (apply_mutation m ps)"
proof (cases m)
  case (Add_Patient p)
  assume b: "ids_bounded (Suc n) ps"
  with fresh_id_bounded [OF b] Add_Patient show ?thesis by (auto simp: ids_bounded_def)
qed (auto simp: ids_bounded_def)

text \<open>Ids that are doubles survive decoding, so distinct ones stay distinct.\<close>

lemma ids_distinct_parse:
  "ids_bounded n ps \<Longrightarrow> ids_distinct ps \<Longrightarrow> ids_distinct (map parse_patient ps)"
proof -
  assume b: "ids_bounded n ps" and d: "ids_distinct ps"
  have "map (patient_id \<circ> parse_patient) ps = map patient_id ps"
  proof (rule map_cong [OF refl])
    fix p assume "p \<in> set ps"
    with b have "\<bar>patient_id p\<bar> \<le> 2 ^ 53" by (auto simp: ids_bounded_def)
    then show "(patient_id \<circ> parse_patient) p = patient_id p" by (simp add: parse_patient_exact)
  qed
  with d show ?thesis unfolding ids_distinct_def map_map by (simp only:)
qed

lemma ids_distinct_apply_mutation:
  "ids_distinct ps \<Longrightarrow> ids_distinct (apply_mutation m ps)"
  using fresh_id_fresh [of ps] by (cases m) (auto simp: ids_distinct_def distinct_map_filter)

lemma ids_distinct_commit:
  "ids_distinct (patients p) \<Longrightarrow> ids_distinct (filtered_patients p) \<Longrightarrow>
   ids_distinct (filtered_patients (commit p))"
  by (auto simp: commit_def Let_def filter_effect_def ids_distinct_def filter_patients_def distinct_map_filter)

lemma sys_ids_inv_step: "sys_ids_inv (Suc n) s \<Longrightarrow> sys_step s e = Inr s' \<Longrightarrow> sys_ids_inv n s'"
proof (cases e)
  case Ui_Commit
  assume "sys_ids_inv (Suc n) s" "sys_step s e = Inr s'"
  with Ui_Commit show ?thesis
    by (auto simp: run_page_def sys_ids_inv_def ids_distinct_commit ids_bounded_Suc)
next
  case (Ui_Type q)
  assume "sys_ids_inv (Suc n) s" "sys_step s e = Inr s'"
  with Ui_Type show ?thesis by (auto simp: run_page_def sys_ids_inv_def ids_bounded_Suc)
next
  case (Serve r)
  assume "sys_ids_inv (Suc n) s" "sys_step s e = Inr s'"
  with Serve show ?thesis
    by (auto simp: sys_ids_inv_def ids_bounded_Suc split: if_splits intro: ids_distinct_parse)
next
  case (Deliver r)
  assume inv: "sys_ids_inv (Suc n) s" and st: "sys_step s e = Inr s'"
  show ?thesis
  proof (cases "map_of (answers s) r")
    case None
    with st Deliver inv show ?thesis by (simp add: sys_ids_inv_def ids_bounded_Suc)
  next
    case (Some out)
    then have a: "(r, out) \<in> set (answers s)" by (rule map_of_SomeD)
    show ?thesis
    proof (cases "r \<in> set (in_flight (sys_page s))")
      case False
      with st Deliver Some inv show ?thesis by (auto simp: run_page_def sys_ids_inv_def ids_bounded_Suc)
    next
      case True
      with st Deliver Some obtain p' where
        fin: "fetch_patients_finish out ((sys_page s)\<lparr>in_flight := remove1 r (in_flight (sys_page s))\<rparr>) = Inr p'"
        and s': "s' = s\<lparr>answers := filter (\<lambda>a. fst a \<noteq> r) (answers s), sys_page := p'\<rparr>"
        by (auto simp: run_page_def split: sum.splits)
      from fin inv a s' show ?thesis
        by (elim fetch_patients_finish_InrE) (auto simp: sys_ids_inv_def ids_bounded_Suc)
    qed
  qed
next
  case (Mutate m ok)
  assume "sys_ids_inv (Suc n) s" "sys_step s e = Inr s'"
  with Mutate show ?thesis
    by (cases ok) (auto simp: run_page_def dialog_callback_def sys_ids_inv_def
        ids_distinct_apply_mutation ids_bounded_apply_mutation ids_bounded_Suc)
qed

lemma sys_ids_inv_run:
  "sys_run s es = Inr s' \<Longrightarrow> sys_ids_inv (length es) s \<Longrightarrow> sys_ids_inv 0 s'"
proof (induction s es rule: sys_run.induct)
  case (1 s)
  then show ?case by simp
next
  case (2 s e es)
  then show ?case by (auto split: sum.splits intro: sys_ids_inv_step)
qed

lemma sys_run_ids_distinct:
  "ids_distinct backend \<Longrightarrow> ids_bounded (length es) backend \<Longrightarrow>
   sys_run (sys_init backend) es = Inr s \<Longrightarrow> ids_distinct (filtered_patients (sys_page s))"
  using sys_ids_inv_run [of "sys_init backend" es s]
  by (simp add: sys_ids_inv_def sys_init_def initial_page_def ids_distinct_def)

section \<open>Refresh after a mutation\<close>

lemma sys_reachable_quiescent: "sys_reachable s \<Longrightarrow> in_flight (sys_page s) = [] \<Longrightarrow> answers s = []"
proof -
  assume "sys_reachable s" and none: "in_flight (sys_page s) = []"
  then have "sys_inv s" by (blast intro: sys_reachable_inv)
  with none have "\<forall>a\<in>set (answers s). False" by (auto simp: sys_inv_def)
  then show "answers s = []" by (cases "answers s") auto
qed

text \<open>C18: Refresh converges to the backend: from a reachable state with no request in flight, after a dialog's successful mutation, the refetch it triggers being served and delivered, and a commit, the backend holds the mutated list, the page holds exactly that list as \<open>res.json()\<close> decodes it, and shows its filter by the current query.\<close>

lemma mutation_refresh_converges:
  "sys_reachable s \<Longrightarrow> in_flight (sys_page s) = [] \<Longrightarrow>
   \<exists>s'. sys_run s [Mutate m True, Serve (next_request (sys_page s)), Deliver (next_request (sys_page s)), Ui_Commit] = Inr s' \<and>
     store s' = apply_mutation m (store s) \<and> patients (sys_page s') = map parse_patient (store s') \<and>
     filtered_patients (sys_page s') = filter_patients (map parse_patient (store s')) (search_query (sys_page s))"
proof -
  assume "sys_reachable s" and q: "in_flight (sys_page s) = []"
  then have a: "answers s = []" by (rule sys_reachable_quiescent)
  show ?thesis
    using q a by (simp add: run_page_def dialog_callback_def commit_unfolds)
qed

text \<open>
  Without sequencing, a deleted record can come back: the mount fetch is served before a
  deletion but delivered after the deletion's refresh, and the page ends up showing the
  deleted record while the backend no longer holds it.
\<close>

lemma stale_answer_resurrects_deleted:
  "\<exists>s'. sys_run (sys_init [asha_rao])
          [Ui_Commit, Serve 0, Mutate (Delete_Patient 1) True, Serve 1, Deliver 1, Deliver 0, Ui_Commit] = Inr s' \<and>
     store s' = [] \<and> patients (sys_page s') = [asha_rao] \<and> filtered_patients (sys_page s') = [asha_rao]"
  by (simp add: sys_init_def initial_page_def run_page_def dialog_callback_def controller_simps
      filter_patients_def, simp add: asha_rao_def)

lemma mutation_refresh_converges_witness:
  "sys_reachable loaded_sys \<and> in_flight (sys_page loaded_sys) = [] \<and>
   (\<exists>s'. sys_run loaded_sys [Mutate (Add_Patient asha_rao) True, Serve (next_request (sys_page loaded_sys)), Deliver (next_request (sys_page loaded_sys)), Ui_Commit] = Inr s' \<and>
     store s' = apply_mutation (Add_Patient asha_rao) (store loaded_sys) \<and> patients (sys_page s') = map parse_patient (store s') \<and>
     filtered_patients (sys_page s') = filter_patients (map parse_patient (store s')) (search_query (sys_page loaded_sys)))"
proof -
  have q: "in_flight (sys_page loaded_sys) = []" by (simp add: loaded_sys_def)
  show ?thesis using mutation_refresh_converges [OF loaded_sys_reachable q] loaded_sys_reachable q by blast
qed

end
