(* ===== verification/ControllerSpec.thy ===== *)
theory ControllerSpec
  imports Controller
begin

text \<open>
  The specification's abstract controller (section 4.1) and the refinement of it by the
  model of \<open>PatientRecords\<close>. The abstract state is the full record list, the search
  text and the loading flag; the filtered list is derived from them, never stored. Its
  operations are a successful refresh (the list is replaced wholesale), a failed one
  (only loading is cleared) and setting the search text. The controller's steps map to
  these: a keystroke sets the search text, the resolution of a pending request is a
  refresh whose outcome the code decides, and commits, dialog callbacks and stale
  answers change nothing abstract. The theorem is a forward simulation lifted to runs:
  every run from a reachable page is matched by the abstract controller on the run's
  abstract trace (\<open>abs_trace\<close>), and the filtered list agrees with the derived one
  whenever no filter effect is pending. The code classifies outcomes by the
  body only; the specification (sections 4.1 and 6) also fails a non-2xx status.
\<close>

section \<open>The abstract controller\<close>

record spec_state =
  all_records :: "patient list"
  search_text :: js_string
  is_loading :: bool

definition spec_init :: spec_state where
  "spec_init = \<lparr>all_records = [], search_text = [], is_loading = True\<rparr>"

datatype spec_event =
    Refresh_Ok "patient list"
  | Refresh_Failed
  | Set_Search_Text js_string
  | Stutter

fun spec_step :: "spec_state \<Rightarrow> spec_event \<Rightarrow> spec_state" where
  "spec_step s (Refresh_Ok data) = s\<lparr>all_records := data, is_loading := False\<rparr>"
| "spec_step s Refresh_Failed = s\<lparr>is_loading := False\<rparr>"
| "spec_step s (Set_Search_Text q) = s\<lparr>search_text := q\<rparr>"
| "spec_step s Stutter = s"

definition spec_filtered :: "spec_state \<Rightarrow> patient list" where
  "spec_filtered s = filter_patients (all_records s) (search_text s)"

text \<open>The specification's reading of a network outcome: success is a 2xx status with an array.\<close>

fun spec_outcome :: "fetch_outcome \<Rightarrow> spec_event" where
  "spec_outcome (Http_Response n (Json_Array data)) =
     (if 200 \<le> n \<and> n < 300 then Refresh_Ok data else Refresh_Failed)"
| "spec_outcome _ = Refresh_Failed"

section \<open>Abstraction\<close>

definition abs_page :: "page \<Rightarrow> spec_state" where
  "abs_page p = \<lparr>all_records = patients p, search_text = search_query p, is_loading = loading p\<rparr>"

text \<open>The code's reading of an outcome: any array body is a success.\<close>

fun code_outcome :: "fetch_outcome \<Rightarrow> spec_event" where
  "code_outcome (Http_Response n (Json_Array data)) = Refresh_Ok data"
| "code_outcome _ = Refresh_Failed"

fun abs_event :: "page \<Rightarrow> event \<Rightarrow> spec_event" where
  "abs_event p Commit = Stutter"
| "abs_event p (Type_Query q) = Set_Search_Text q"
| "abs_event p Refetch = Stutter"
| "abs_event p (Resolve r out) = (if r \<in> set (in_flight p) then code_outcome out else Stutter)"

text \<open>
  The abstract trace of a run: each event of the run, read in the page it is applied to,
  up to the first step that fails.
\<close>

fun abs_trace :: "page \<Rightarrow> event list \<Rightarrow> spec_event list" where
  "abs_trace p [] = []"
| "abs_trace p (e # es) =
     (case step p e of Inl err \<Rightarrow> [] | Inr p' \<Rightarrow> abs_event p e # abs_trace p' es)"

text \<open>The page at the end of the specification's first scenario, for the witness.\<close>

definition scenario_final :: page where
  "scenario_final = initial_page\<lparr>patients := [asha_rao], filtered_patients := [asha_rao], loading := False,
     search_query := ''pneu'', mount_due := False, filter_due := False, next_request := 1\<rparr>"

section \<open>Refinement\<close>

lemma abs_page_initial: "abs_page initial_page = spec_init"
  by (simp add: abs_page_def initial_page_def spec_init_def)

text \<open>C13: The controller refines the specification's abstract controller over whole runs: from every reachable page, a run of events that does not fail changes the full list, the search text and the loading flag exactly as the abstract controller does on the run's abstract trace (a keystroke sets the search text, a pending answer with an array body is a successful refresh whatever its status, any other pending answer a failed one, everything else nothing), and at its end the filtered list is the derived one whenever no filter effect is pending.\<close>

theorem controller_refines_spec:
  "reachable p \<Longrightarrow> run p es = Inr p' \<Longrightarrow>
   abs_page p' = foldl spec_step (abs_page p) (abs_trace p es) \<and>
   (\<not> filter_due p' \<longrightarrow> filtered_patients p' = spec_filtered (abs_page p'))"
proof (induction es arbitrary: p)
  case Nil
  then have "p' = p" by simp
  moreover have "page_inv p" using Nil.prems(1) by (rule reachable_page_inv)
  ultimately show ?case by (simp add: page_inv_def spec_filtered_def abs_page_def)
next
  case (Cons e es)
  from Cons.prems(2) obtain p1 where st: "step p e = Inr p1" and r: "run p1 es = Inr p'"
    by (auto split: sum.splits)
  have "abs_page p1 = spec_step (abs_page p) (abs_event p e)"
  proof (cases e)
    case (Resolve r out)
    with st show ?thesis
      by (auto simp: abs_page_def split: if_splits elim!: fetch_patients_finish_InrE)
  qed (use st in \<open>auto simp: abs_page_def commit_unfolds set_search_query_def split: if_splits\<close>)
  moreover have "reachable p1" using Cons.prems(1) st by (rule reachable.step)
  ultimately show ?case using Cons.IH [OF _ r] st by simp
qed

text \<open>Where the two readings of an outcome part: an array body under a non-2xx status.\<close>

lemma code_outcome_spec_outcome:
  "code_outcome out \<noteq> spec_outcome out \<longleftrightarrow>
   (\<exists>n data. out = Http_Response n (Json_Array data) \<and> \<not> (200 \<le> n \<and> n < 300))"
  by (cases out rule: spec_outcome.cases) auto

lemma controller_refines_spec_witness:
  "reachable initial_page \<and> run initial_page scenario_events = Inr (scenario_final) \<and>
   abs_page (scenario_final) =
     foldl spec_step (abs_page initial_page) (abs_trace initial_page scenario_events) \<and>
   \<not> filter_due (scenario_final) \<and>
   filtered_patients (scenario_final) = spec_filtered (abs_page (scenario_final))"
proof -
  have r: "run initial_page scenario_events = Inr (scenario_final)"
    by (simp add: scenario_final_def run_scenario)
  note c = controller_refines_spec [OF reachable.initial r]
  have "\<not> filter_due (scenario_final)" by (simp add: scenario_final_def run_scenario)
  with c r reachable.initial show ?thesis by blast
qed

end
