(* ===== verification/Spec2Isabelle.thy ===== *)
theory Spec2Isabelle
  imports View Mutations Json ControllerSpec
begin

text \<open>
  \<^bold>\<open>A verification model of the patient-records front end of Divya-Drishti.\<close>

  \<^bold>\<open>The program.\<close> The repository's sources are two React pages.
  \<open>src/src/pages/Home.tsx\<close> is a stateless landing page: a header, a hero panel,
  three feature cards rendered by \<open>map\<close> over a literal array, a call to action and a
  footer, with two links to the patient list. \<open>src/src/pages/PatientRecords.tsx\<close> is the patient list: a
  component with four pieces of state (\<open>patients\<close>, \<open>filteredPatients\<close>,
  \<open>loading\<close>, \<open>searchQuery\<close>), an async \<open>fetchPatients\<close> that reads
  \<open>GET /api/patients\<close> and stores the result, an effect that fetches on mount, an
  effect that recomputes the filtered list whenever the query or the list changes, and a
  render that shows placeholders, cards or an empty state. The add and delete dialogs
  (not in the sources) receive \<open>fetchPatients\<close> as their completion callback.

  \<^bold>\<open>The theories.\<close>
  \<^item> \<open>Prelude\<close>: the type names (\<open>js_string\<close>, \<open>js_int\<close>), the rule collections
    \<open>js_simps\<close> and \<open>controller_simps\<close>, and generic lemmas on characters, lists,
    sublists and subsequences.
  \<^item> \<open>JsString\<close>: the JavaScript built-ins the filter and the render call, as
    executable functions: \<open>to_lower_case\<close> (\<open>toLowerCase\<close>), \<open>str_includes\<close>
    (\<open>includes\<close>), \<open>char_at0\<close> (\<open>charAt(0)\<close>), \<open>int_to_string\<close>
    (\<open>Number.prototype.toString\<close> on integers), and a decimal reader
    \<open>parse_int_string\<close> that inverts the printer; beside the recursive
    \<open>str_includes\<close>, the specification's \<open>StringIndexOf\<close> loop
    (\<open>index_of_loop\<close>, a \<open>while_option\<close>; \<open>string_index_of\<close>, \<open>js_includes\<close>).
    Lemmas: \<open>str_includes\<close> is the library's \<open>sublist\<close> and agrees with the loop,
    which terminates; the printer round-trips and is injective; a query and its lower
    case occur alike in a decimal string. The printer gives JavaScript's digits for
    integers of magnitude up to \<open>2^53\<close> only (see the choices below).
  \<^item> \<open>JsNumber\<close>: how \<open>res.json()\<close> reads an integer literal, as an IEEE double:
    \<open>double_round\<close> (with \<open>round_nat_to_double\<close> and \<open>bit_length\<close>) rounds to 53
    significant bits, ties to the even significand. Lemmas: it meets the specification
    of round-to-nearest of AFP's IEEE_Floating_Point (\<open>representable\<close>: a result
    closest to the literal), it is exact on representable integers, hence on every
    magnitude up to \<open>2^53\<close>, and \<open>2^53 + 1\<close> is read as \<open>2^53\<close>.
  \<^item> \<open>Patient\<close>: the \<open>Patient\<close> interface as the record \<open>patient\<close>, the filter
    callback (\<open>matches_search\<close>) and the filter (\<open>filter_patients\<close>) of lines 44-48,
    and the specification's predicate \<open>spec_passes\<close>. Lemmas: the code's filter is the
    specification's filter (refinement), the identity on the empty query,
    case-insensitive, narrowing as the query grows, and it keeps ids unique.
  \<^item> \<open>Json\<close>: the same callback on what \<open>res.json()\<close> really returns, untyped
    JSON (\<open>json\<close>, objects as field lists as in AFP's Nano_JSON): property reads
    (\<open>get_field\<close>), \<open>toLowerCase\<close> (\<open>js_to_lower\<close>) and \<open>toString\<close>
    (\<open>js_call_to_string\<close>, \<open>to_string_value\<close>) on every kind of value, a
    \<open>TypeError\<close> as \<open>Inl Type_Error\<close>, the short-circuit of \<open>||\<close>
    (\<open>matches_search_json\<close>) and \<open>Array.prototype.filter\<close> (\<open>filter_json\<close>);
    \<open>parse_numbers\<close> applies \<open>JsNumber\<close>'s parse to every number of a response;
    \<open>patient_of_json\<close> reads the values the \<open>Patient\<close> interface describes. Lemmas:
    on conforming values the untyped filter never throws and computes the typed filter,
    which justifies the typed array of the controller; an element without a diagnosis
    throws exactly when its name and id do not match; a parsed record is the written one
    with its numbers rounded, so records with ids up to \<open>2^53\<close> arrive intact while two
    ids above it can arrive as one.
  \<^item> \<open>Controller\<close>: the component as a state machine. The record \<open>page\<close> holds the
    four \<open>useState\<close> hooks and what React keeps for the component (which effects the
    last render scheduled, which \<open>fetchPatients\<close> calls are pending). Operations:
    \<open>fetch_patients_start\<close> and \<open>fetch_patients_finish\<close> (the two halves of
    \<open>fetchPatients\<close> around its \<open>await\<close>s, with the \<open>catch\<close> and
    \<open>finally\<close> branches), \<open>set_search_query\<close>, \<open>filter_effect\<close> and
    \<open>commit\<close> (React running the scheduled effects in declaration order). \<open>step\<close>
    applies one event (commit, keystroke, dialog callback, resolution of a pending fetch
    with a network outcome), \<open>run\<close> a list of them, and \<open>reachable\<close> is the
    inductive set of reachable pages. Errors are values: a render that throws is
    \<open>Inl Render_Type_Error\<close>. The invariant \<open>page_inv\<close> is proved for every
    reachable page by rule induction, one preservation lemma per operation; the claims
    about consistency of the filtered list, clearing the search, loading, failure and
    success of a fetch, overlapping fetches (whichever pending request resolves last
    wins) and the number of requests follow from it or from runs.
  \<^item> \<open>ControllerSpec\<close>: the specification's abstract controller of section 4.1
    (\<open>spec_state\<close>: full list, search text, loading; \<open>spec_step\<close> on a successful
    refresh, a failed one, a new search text) and the abstraction \<open>abs_page\<close>,
    \<open>abs_event\<close>, \<open>abs_trace\<close> from the controller. The refinement theorem is a
    forward simulation lifted to runs: every run from a reachable page acts on the
    abstract state as the abstract controller does on the run's abstract trace, with the
    derived filtered list matched at its end whenever no filter effect is pending; the code's reading of an answer (\<open>code_outcome\<close>) differs from
    the specification's (\<open>spec_outcome\<close>) exactly on array bodies under a non-2xx
    status.
  \<^item> \<open>View\<close>: the render as data: \<open>render_card\<close> (lines 105-165, including the
    \<open>bed_id &&\<close> expression as \<open>bed_segments\<close>), \<open>render_page\<close> (lines 52-187:
    the header's texts, the search input controlled by the query, the count, six
    placeholders or the card grid, the empty state with its texts and second add dialog),
    the React keys of the list (\<open>body_keys\<close>) and the records page's links
    (\<open>records_links\<close>).
    Lemmas: loading hides records, one card per filtered record with a monitoring link
    that decodes to its id, when the empty state shows, and the rendering of bed 0.
  \<^item> \<open>Home\<close>: the landing page as data, part by part (\<open>home_header\<close>,
    \<open>home_hero\<close>, \<open>home_features\<close> rendered by \<open>render_feature\<close> and
    \<open>feature_cards\<close>, \<open>home_cta\<close>, \<open>home_footer\<close>, composed in
    \<open>home_page\<close>) and its links (\<open>home_links\<close>). Lemmas: the links' targets, the
    cards' keys and content, the computed icon-background class and the empty
    call-to-action link.
  \<^item> \<open>Mutations\<close>: the page together with the add and delete dialogs and the
    backend. The dialogs' sources are not among the repository's sources; their contract
    (call \<open>fetchPatients\<close> once after a successful request, never after a failed one)
    is modelled from the specification as \<open>dialog_callback\<close>. The backend is an
    environment (\<open>apply_mutation\<close>, which gives a created record a fresh id,
    \<open>fresh_id\<close>): it answers a pending request with the list it holds
    when it serves it, as \<open>res.json()\<close> will decode it (\<open>Serve\<close>, with
    \<open>parse_patient\<close> rounding each number to a double), and the answer reaches the
    page later (\<open>Deliver\<close>), in any order. \<open>sys_step\<close>, \<open>sys_run\<close> and
    \<open>sys_reachable\<close> mirror the page's machine; the invariant \<open>sys_inv\<close> (every
    waiting answer is a well-formed reply to a pending request) gives that a mutation
    followed by its refresh converges to the backend's list as decoded, and a trace shows
    that a late answer can undo a deletion on the page; \<open>sys_ids_inv n\<close> keeps ids
    unique in the backend, the page and every waiting answer for \<open>n\<close> more events,
    provided the backend's ids leave room for them below \<open>2^53\<close>
    (\<open>ids_bounded\<close>), so that decoding keeps them apart.
  \<^item> This theory: properties that span the controller, the view and the system: the
    React keys of the rendered list are distinct in every state the system reaches from
    a backend with unique ids that leave room for the run below \<open>2^53\<close>, while a
    backend holding the id \<open>2^53\<close> that creates one record makes two cards share a key;
    and the render right after a refetch shows the whole fetched list, unfiltered.

  \<^bold>\<open>Bounds and fuel.\<close> No loop of the program is unbounded: every recursion of the model
    is structural or decreases a natural number (\<open>nat_to_string\<close> by \<open>div 10\<close>),
    and the one loop written as a loop, \<open>StringIndexOf\<close>, is a \<open>while_option\<close> whose
    termination is proved with the measure \<open>length s + 1 - i\<close>; so no fuel is used.

  \<^bold>\<open>Choices.\<close> Strings are lists of 8-bit characters and lower-casing is ASCII's;
    JavaScript's Unicode case mapping of other letters is not modelled. Numbers used as
    ids, ages and bed ids are integers. The page's model (\<open>Patient\<close> to \<open>View\<close>)
    holds them as \<open>res.json()\<close> delivers them, that is as doubles; in
    \<open>Mutations\<close> the backend holds exact integers and the page receives them rounded
    (\<open>parse_patient\<close>); \<open>JsNumber\<close> and \<open>Json\<close> show when the rounding changes
    them (magnitudes above \<open>2^53\<close>). The decimal printer \<open>int_to_string\<close> prints exact
    digits, which is what JavaScript prints for every integer of magnitude up to
    \<open>2^53\<close>; above it JavaScript prints the shortest digits that read back as the same
    double (\<open>2^60\<close> as \<open>1152921504606847000\<close>) and from \<open>10^21\<close> on exponent
    notation, neither of which is modelled: what the development shows of an id's
    decimal string holds of the code for ids up to \<open>2^53\<close> in magnitude. In
    \<open>Controller\<close> the network is an input of the model: every resolution event
    carries the outcome the server and the network produced; \<open>Mutations\<close> closes the
    loop with a backend that serves its list. The admission date's locale formatting is a parameter
    of the render. React is modelled in its production behaviour: the development mode's
    StrictMode, which runs mount effects twice, is not. In \<open>Controller\<close> the elements
    of a JSON array are well-formed patient objects; \<open>Json\<close> models arbitrary
    elements for the filter and shows that conforming ones behave as the typed model.
    JSON numbers are integers there; fractional numbers are not modelled.

  \<^bold>\<open>Not modelled.\<close> The sources are the two page files; what they import or link to
    is not among them, and is modelled only through its interface:
  \<^item> the router and the monitoring page (\<open>/dashboard\<close>): not in the sources; only the
    links the pages render, and the id a monitoring link carries, are modelled;
  \<^item> the add and delete dialogs (\<open>src/components\<close>, not in the sources): their forms and
    requests are not modelled; their callback contract is, from the specification;
  \<^item> the backend: an external service; it is an environment that serves its list and
    assigns fresh ids, not a program of the repository;
  \<^item> styling classes (other than the home page's one computed class), icon drawings,
    animation and the decorative markup: they carry no state and no text;
  \<^item> \<open>console.error\<close>: output only, it changes no state;
  \<^item> the admission date's formatting (\<open>toLocaleDateString\<close>): it depends on the browser's
    locale and time zone, so it is a parameter of the render;
  \<^item> non-integer JSON numbers, and integer literals of magnitude \<open>2^1024\<close> or more
    (parsed to \<open>Infinity\<close>): ids, ages and bed ids are integers of the backend's.
\<close>

text \<open>
  After a dialog's refetch succeeds while a search text is active, the page renders the
  whole fetched list, unfiltered, until React runs the filter effect: the filtered list is
  not at every moment determined by the search text.
\<close>

lemma refetch_shows_unfiltered_frame:
  "\<exists>p p'. run initial_page (scenario_events @ [Type_Query ''99'', Commit]) = Inr p \<and>
     found_count (render_page fmt p) = 0 \<and>
     run p [Refetch, Resolve 1 (Http_Response 200 (Json_Array [asha_rao]))] = Inr p' \<and>
     found_count (render_page fmt p') = 1 \<and> search_query p' = ''99'' \<and>
     filter_patients (patients p') (search_query p') = []"
  by (simp add: run_append run_scenario set_search_query_def commit_def filter_effect_def
      filter_asha_rao_99 fetch_patients_start_def)

text \<open>
  Ids above \<open>2^53\<close> break the keys: a backend holding the id \<open>2^53\<close> assigns
  \<open>2^53 + 1\<close> to the next record it creates, \<open>res.json()\<close> reads both ids as the same
  double, and the page renders two cards with one key.
\<close>

lemma duplicate_keys_above_2_53:
  "\<exists>s. sys_run (sys_init [asha_rao\<lparr>patient_id := 2 ^ 53\<rparr>])
         [Ui_Commit, Mutate (Add_Patient asha_rao) True, Serve 1, Deliver 1, Ui_Commit] = Inr s \<and>
       store s = [asha_rao\<lparr>patient_id := 2 ^ 53\<rparr>, asha_rao\<lparr>patient_id := 2 ^ 53 + 1\<rparr>] \<and>
       body_keys (page_body (render_page fmt (sys_page s))) = [2 ^ 53, 2 ^ 53]"
proof -
  have f: "fresh_id [asha_rao\<lparr>patient_id := 2 ^ 53\<rparr>] = 2 ^ 53 + 1"
    by (simp add: fresh_id_def)
  have p1: "parse_patient (asha_rao\<lparr>patient_id := 2 ^ 53\<rparr>) = asha_rao\<lparr>patient_id := 2 ^ 53\<rparr>"
    by (simp add: parse_patient_def asha_rao_def double_round_exact representable_small)
  have p2: "parse_patient (asha_rao\<lparr>patient_id := 2 ^ 53 + 1\<rparr>) = asha_rao\<lparr>patient_id := 2 ^ 53\<rparr>"
    using double_round_ties by (simp add: parse_patient_def asha_rao_def double_round_exact representable_small)
  show ?thesis
    by (simp add: f [simplified] p1 [simplified] p2 [simplified] sys_init_def initial_page_def
        run_page_def dialog_callback_def controller_simps filter_patients_empty_query
        render_page_def render_card_def)
qed

text \<open>C21: With a backend whose records have unique ids, and whose ids leave room for the run, that is each id, and so each id the backend assigns during the run, stays a double (magnitude at most \<open>2^53\<close> less the number of events), in every state the page and its dialogs reach the React keys of the rendered list are distinct: the placeholders' numbers while loading, the records' ids as decoded otherwise.\<close>

theorem rendered_keys_distinct:
  "distinct (map patient_id backend) \<Longrightarrow> int (length es) \<le> 2 ^ 53 \<Longrightarrow>
   (\<forall>p\<in>set backend. \<bar>patient_id p\<bar> + int (length es) \<le> 2 ^ 53) \<Longrightarrow>
   sys_run (sys_init backend) es = Inr s \<Longrightarrow>
   distinct (body_keys (page_body (render_page fmt (sys_page s))))"
proof -
  assume d: "distinct (map patient_id backend)" and n: "int (length es) \<le> 2 ^ 53"
    and b: "\<forall>p\<in>set backend. \<bar>patient_id p\<bar> + int (length es) \<le> 2 ^ 53"
    and r: "sys_run (sys_init backend) es = Inr s"
  have "ids_distinct (filtered_patients (sys_page s))"
    using d n b r by (intro sys_run_ids_distinct) (simp_all add: ids_distinct_def ids_bounded_def)
  then show ?thesis
    by (simp add: render_page_def render_card_def ids_distinct_def comp_def distinct_map)
qed

theorem rendered_keys_distinct_witness:
  "distinct (map patient_id [asha_rao]) \<and>
   int (length [Ui_Commit, Serve 0, Deliver 0, Ui_Commit]) \<le> 2 ^ 53 \<and>
   \<bar>patient_id asha_rao\<bar> + int (length [Ui_Commit, Serve 0, Deliver 0, Ui_Commit]) \<le> 2 ^ 53 \<and>
   sys_run (sys_init [asha_rao]) [Ui_Commit, Serve 0, Deliver 0, Ui_Commit] = Inr loaded_sys \<and>
   distinct (body_keys (page_body (render_page id (sys_page loaded_sys))))"
proof -
  have d: "distinct (map patient_id [asha_rao])" by simp
  have n: "int (length [Ui_Commit, Serve 0, Deliver 0, Ui_Commit]) \<le> 2 ^ 53" by simp
  have b: "\<bar>patient_id asha_rao\<bar> + int (length [Ui_Commit, Serve 0, Deliver 0, Ui_Commit]) \<le> 2 ^ 53"
    by (simp add: asha_rao_def)
  then have "\<forall>p\<in>set [asha_rao]. \<bar>patient_id p\<bar> + int (length [Ui_Commit, Serve 0, Deliver 0, Ui_Commit]) \<le> 2 ^ 53"
    by simp
  with d n b show ?thesis using rendered_keys_distinct [OF d n _ loaded_sys_run, of id] loaded_sys_run by blast
qed

end
